theory Spec2Isabelle
  imports Complex_Main "HOL-Library.Multiset"
begin

section \<open>JavaScript values\<close>

text \<open>
  The values the program handles are the results of \<^verbatim>\<open>JSON.parse\<close> and what the program
  builds from them. A number is a rational (every finite double is one; the infinities that
  \<^verbatim>\<open>JSON.parse\<close> produces for literals beyond the double range are left out). A string is a
  list of 8-bit characters. An object is an association list read from the left: a lookup
  returns the first entry of a key and an assignment replaces that entry or appends a new one.
  An array carries its elements and, second, the named properties that an assignment such as
  \<^verbatim>\<open>arr.questions = ...\<close> adds to it; \<^verbatim>\<open>JSON.parse\<close> produces arrays with none. The program
  adds no property under the name of an array method, and the model takes \<^verbatim>\<open>map\<close>,
  \<^verbatim>\<open>filter\<close>, \<^verbatim>\<open>slice\<close> and \<^verbatim>\<open>join\<close> of an array from the prototype.
\<close>

datatype jsval =
    JUndefined
  | JNull
  | JBool bool
  | JNum rat
  | JStr string
  | JArr "jsval list" "(string \<times> jsval) list"
  | JObj "(string \<times> jsval) list"

text \<open>
  What a \<^verbatim>\<open>throw\<close> carries: \<^verbatim>\<open>new Error(msg)\<close> of the program with its message (\<open>ErrorOf v\<close>
  when the message is the rendering of a value \<open>v\<close> that is not a string), and the engine's
  own \<^verbatim>\<open>TypeError\<close> and \<^verbatim>\<open>SyntaxError\<close>, whose message texts are not modelled.
\<close>

datatype error = Error string | ErrorOf jsval | TypeError | SyntaxError

fun truthy :: "jsval \<Rightarrow> bool" where
  "truthy JUndefined = False"
| "truthy JNull = False"
| "truthy (JBool b) = b"
| "truthy (JNum r) = (r \<noteq> 0)"
| "truthy (JStr s) = (s \<noteq> [])"
| "truthy (JArr xs ps) = True"
| "truthy (JObj kv) = True"

text \<open>\<^verbatim>\<open>a || b\<close>\<close>

definition or_else :: "jsval \<Rightarrow> jsval \<Rightarrow> jsval" where
  "or_else a b = (if truthy a then a else b)"

fun nullish :: "jsval \<Rightarrow> bool" where
  "nullish JUndefined = True"
| "nullish JNull = True"
| "nullish v = False"

text \<open>
  \<^verbatim>\<open>v?.k\<close>, and \<^verbatim>\<open>v.k\<close> where \<^verbatim>\<open>v\<close> is known not to be null or undefined, for the property
  names this program reads (\<^verbatim>\<open>id\<close>, \<^verbatim>\<open>title\<close>, \<^verbatim>\<open>units\<close>, \<^verbatim>\<open>questions\<close>, ...): none of them
  is an index, \<^verbatim>\<open>length\<close> or a member of a built-in prototype, so a primitive has none of them.
\<close>

fun getProp :: "jsval \<Rightarrow> string \<Rightarrow> jsval" where
  "getProp (JObj kv) k = (case map_of kv k of Some v \<Rightarrow> v | None \<Rightarrow> JUndefined)"
| "getProp (JArr xs ps) k = (case map_of ps k of Some v \<Rightarrow> v | None \<Rightarrow> JUndefined)"
| "getProp v k = JUndefined"

text \<open>\<^verbatim>\<open>obj[k] = v\<close> on the own properties of an object.\<close>

fun setProp :: "string \<Rightarrow> jsval \<Rightarrow> (string \<times> jsval) list \<Rightarrow> (string \<times> jsval) list" where
  "setProp k v [] = [(k, v)]"
| "setProp k v ((k', v') # ps) = (if k' = k then (k, v) # ps else (k', v') # setProp k v ps)"

text \<open>Decimal digits of a natural number, as a template literal prints \<^verbatim>\<open>${i + 1}\<close>.\<close>

definition digit :: "nat \<Rightarrow> char" where
  "digit d = ''0123456789'' ! d"

function show_nat :: "nat \<Rightarrow> string" where
  "show_nat n = (if n < 10 then [digit n] else show_nat (n div 10) @ [digit (n mod 10)])"
  by pat_completeness auto
termination
  by (relation "measure id") auto

declare show_nat.simps [simp del]

text \<open>The pairs (index, element) that \<^verbatim>\<open>Array.prototype.map\<close> hands to its callback.\<close>

definition indexed :: "'a list \<Rightarrow> (nat \<times> 'a) list" where
  "indexed xs = enumerate 0 xs"

text \<open>
  \<^verbatim>\<open>{ ...v }\<close>: the own enumerable properties of \<^verbatim>\<open>v\<close>. An array gives its elements under
  their indices and then its named properties, a string gives its characters, any other
  primitive gives nothing.
\<close>

definition spread :: "jsval \<Rightarrow> (string \<times> jsval) list" where
  "spread v =
     (case v of
        JObj kv \<Rightarrow> kv
      | JArr xs ps \<Rightarrow> map (\<lambda>(i, x). (show_nat i, x)) (indexed xs) @ ps
      | JStr s \<Rightarrow> map (\<lambda>(i, c). (show_nat i, JStr [c])) (indexed s)
      | _ \<Rightarrow> [])"

section \<open>The random source and the shuffle (App.jsx)\<close>

text \<open>
  \<^verbatim>\<open>Math.random()\<close> is a sequence \<open>rnd\<close> of numbers, \<open>rnd c\<close> being the value of the call
  number \<open>c\<close>; every function that draws returns the number of the next call.
  \<^verbatim>\<open>Math.random()\<close> returns values in [0, 1): \<open>unit_interval rnd\<close>.
\<close>

type_synonym rng = "nat \<Rightarrow> rat"

definition unit_interval :: "rng \<Rightarrow> bool" where
  "unit_interval rnd = (\<forall>c. 0 \<le> rnd c \<and> rnd c < 1)"

text \<open>
  \<^verbatim>\<open>
  const shuffleArray = (arr) => {
    const a = [...arr];
    for (let i = a.length - 1; i > 0; i--) {
      const j = Math.floor(Math.random() * (i + 1));
      [a[i], a[j]] = [a[j], a[i]];
    }
    return a;
  };
  \<close>
  \<open>shuffleLoop rnd c i a\<close> is the loop from index \<open>i\<close> down; with \<open>rnd\<close> in [0, 1) every
  \<open>j\<close> is at most \<open>i\<close>, so that no access is out of range.
\<close>

fun shuffleLoop :: "rng \<Rightarrow> nat \<Rightarrow> nat \<Rightarrow> 'a list \<Rightarrow> 'a list \<times> nat" where
  "shuffleLoop rnd c 0 a = (a, c)"
| "shuffleLoop rnd c (Suc k) a =
     (let i = Suc k;
          j = nat \<lfloor>rnd c * of_nat (i + 1)\<rfloor>
      in shuffleLoop rnd (Suc c) k (a[i := a ! j, j := a ! i]))"

definition shuffleArray :: "rng \<Rightarrow> nat \<Rightarrow> 'a list \<Rightarrow> 'a list \<times> nat" where
  "shuffleArray rnd c arr = shuffleLoop rnd c (length arr - 1) arr"

text \<open>\<^verbatim>\<open>findIndex\<close>: the first index whose element satisfies the predicate, or -1.\<close>

fun findIndex :: "('a \<Rightarrow> bool) \<Rightarrow> 'a list \<Rightarrow> int" where
  "findIndex p [] = -1"
| "findIndex p (x # xs) =
     (if p x then 0 else (let r = findIndex p xs in if r < 0 then -1 else r + 1))"

text \<open>
  \<^verbatim>\<open>
  const shuffleQuestionOptions = (q) => {
    const opts = (q.options || []).slice(0, 4).map((opt, idx) => ({
      text: opt,
      correct: idx === q.correctAnswer,
    }));
    const shuffled = shuffleArray(opts);
    return {
      ...q,
      options: shuffled.map((x) => x.text),
      correctAnswer: shuffled.findIndex((x) => x.correct),
    };
  };
  \<close>
  An option with its flag is a pair (text, correct). Reading \<^verbatim>\<open>q.options\<close> of null or
  undefined throws; a truthy \<^verbatim>\<open>options\<close> that is not an array has no \<^verbatim>\<open>slice\<close>, or (a
  string) a \<^verbatim>\<open>slice\<close> whose result has no \<^verbatim>\<open>map\<close>: a TypeError in both cases.
\<close>

definition shuffleQuestionOptions :: "rng \<Rightarrow> nat \<Rightarrow> jsval \<Rightarrow> error + (jsval \<times> nat)" where
  "shuffleQuestionOptions rnd c q =
     (if nullish q then Inl TypeError
      else case or_else (getProp q ''options'') (JArr [] []) of
        JArr os ps \<Rightarrow>
          (let opts = map (\<lambda>(idx, opt). (opt, getProp q ''correctAnswer'' = JNum (of_nat idx)))
                        (indexed (take 4 os));
               (shuffled, c') = shuffleArray rnd c opts
           in Inr (JObj (setProp ''correctAnswer'' (JNum (of_int (findIndex snd shuffled)))
                          (setProp ''options'' (JArr (map fst shuffled) []) (spread q))),
                   c'))
      | _ \<Rightarrow> Inl TypeError)"

text \<open>\<^verbatim>\<open>qs.map(shuffleQuestionOptions)\<close>, the draws running on from one question to the next.\<close>

fun shuffleAll :: "rng \<Rightarrow> nat \<Rightarrow> jsval list \<Rightarrow> error + (jsval list \<times> nat)" where
  "shuffleAll rnd c [] = Inr ([], c)"
| "shuffleAll rnd c (q # qs) =
     (case shuffleQuestionOptions rnd c q of
        Inl e \<Rightarrow> Inl e
      | Inr (q', c') \<Rightarrow>
          (case shuffleAll rnd c' qs of
             Inl e \<Rightarrow> Inl e
           | Inr (qs', c'') \<Rightarrow> Inr (q' # qs', c'')))"

section \<open>The Course Schema Normalizer (App.jsx, normalizeCourseJSON)\<close>

text \<open>\<^verbatim>\<open>Number.isInteger\<close> on a number.\<close>

definition isInteger :: "rat \<Rightarrow> bool" where
  "isInteger r = (of_int \<lfloor>r\<rfloor> = r)"

text \<open>
  \<^verbatim>\<open>
  (l, li) => ({
    id: l?.id || `u${ui + 1}l${li + 1}`,
    title: l?.title || `Lesson ${li + 1}`,
    content: typeof l?.content === "string" ? l.content : "",
    keyPoints: Array.isArray(l?.keyPoints)
      ? l.keyPoints.filter(Boolean).slice(0, 10)
      : [],
  })
  \<close>
\<close>

definition normalizeLesson :: "nat \<Rightarrow> nat \<Rightarrow> jsval \<Rightarrow> jsval" where
  "normalizeLesson ui li l = JObj
     [(''id'', or_else (getProp l ''id'')
                 (JStr (''u'' @ show_nat (ui + 1) @ ''l'' @ show_nat (li + 1)))),
      (''title'', or_else (getProp l ''title'') (JStr (''Lesson '' @ show_nat (li + 1)))),
      (''content'', (case getProp l ''content'' of JStr s \<Rightarrow> JStr s | _ \<Rightarrow> JStr [])),
      (''keyPoints'',
         (case getProp l ''keyPoints'' of
            JArr ks ps \<Rightarrow> JArr (take 10 (filter truthy ks)) []
          | _ \<Rightarrow> JArr [] []))]"

text \<open>
  \<^verbatim>\<open>
  (u, ui) => ({
    id: u?.id || `u${ui + 1}`,
    title: u?.title || `Unit ${ui + 1}`,
    description: u?.description || "",
    lessons: Array.isArray(u?.lessons) ? u.lessons.map((l, li) => ...) : [],
  })
  \<close>
\<close>

definition normalizeUnit :: "nat \<Rightarrow> jsval \<Rightarrow> jsval" where
  "normalizeUnit ui u = JObj
     [(''id'', or_else (getProp u ''id'') (JStr (''u'' @ show_nat (ui + 1)))),
      (''title'', or_else (getProp u ''title'') (JStr (''Unit '' @ show_nat (ui + 1)))),
      (''description'', or_else (getProp u ''description'') (JStr [])),
      (''lessons'',
         (case getProp u ''lessons'' of
            JArr ls ps \<Rightarrow> JArr (map (\<lambda>(li, l). normalizeLesson ui li l) (indexed ls)) []
          | _ \<Rightarrow> JArr [] []))]"

definition placeholders :: "jsval list" where
  "placeholders = [JStr ''Option A'', JStr ''Option B'', JStr ''Option C'', JStr ''Option D'']"

text \<open>
  \<^verbatim>\<open>
  (q, i) => ({
    id: q?.id || `q${i + 1}`,
    question: q?.question || `Question ${i + 1}`,
    options:
      Array.isArray(q?.options) && q.options.length >= 4
        ? q.options.slice(0, 4)
        : ["Option A", "Option B", "Option C", "Option D"],
    correctAnswer:
      Number.isInteger(q?.correctAnswer) && q.correctAnswer >= 0 && q.correctAnswer <= 3
        ? q.correctAnswer
        : 0,
    explanation: q?.explanation || "",
  })
  \<close>
\<close>

definition normalizeOptions :: "jsval \<Rightarrow> jsval list" where
  "normalizeOptions q =
     (case getProp q ''options'' of
        JArr os ps \<Rightarrow> (if 4 \<le> length os then take 4 os else placeholders)
      | _ \<Rightarrow> placeholders)"

definition normalizeCorrectAnswer :: "jsval \<Rightarrow> rat" where
  "normalizeCorrectAnswer q =
     (case getProp q ''correctAnswer'' of
        JNum r \<Rightarrow> (if isInteger r \<and> 0 \<le> r \<and> r \<le> 3 then r else 0)
      | _ \<Rightarrow> 0)"

definition normalizeQuestion :: "nat \<Rightarrow> jsval \<Rightarrow> jsval" where
  "normalizeQuestion i q = JObj
     [(''id'', or_else (getProp q ''id'') (JStr (''q'' @ show_nat (i + 1)))),
      (''question'', or_else (getProp q ''question'') (JStr (''Question '' @ show_nat (i + 1)))),
      (''options'', JArr (normalizeOptions q) []),
      (''correctAnswer'', JNum (normalizeCorrectAnswer q)),
      (''explanation'', or_else (getProp q ''explanation'') (JStr []))]"

text \<open>
  The right-hand side of \<^verbatim>\<open>out.finalTest.questions = ...\<close>:
  \<^verbatim>\<open>
  Array.isArray(out.finalTest.questions)
    ? out.finalTest.questions.map((q, i) => ...).map(shuffleQuestionOptions)
    : []
  \<close>
\<close>

definition normalizeQuestions :: "rng \<Rightarrow> nat \<Rightarrow> jsval \<Rightarrow> error + (jsval list \<times> nat)" where
  "normalizeQuestions rnd c ft =
     (case getProp ft ''questions'' of
        JArr qs ps \<Rightarrow> shuffleAll rnd c (map (\<lambda>(i, q). normalizeQuestion i q) (indexed qs))
      | _ \<Rightarrow> Inr ([], c))"

text \<open>
  \<^verbatim>\<open>
  const normalizeCourseJSON = (parsed) => {
    const out = { ...parsed };
    out.courseTitle = out.courseTitle || "Untitled Course";
    out.courseDescription =
      out.courseDescription || "AI-generated course from the uploaded syllabus.";
    out.units = Array.isArray(out.units) ? out.units : [];
    out.units = out.units.map((u, ui) => ...);
    out.finalTest = out.finalTest || {};
    out.finalTest.questions = ...;
    return out;
  };
  \<close>
  \<open>normalizeHead\<close> is \<open>out\<close> after the statements up to \<^verbatim>\<open>out.units = out.units.map(...)\<close>,
  \<open>normalizeCourseJSON\<close> the whole function: it returns \<open>out\<close> and the number of the next
  random draw. App.jsx has
  \<^verbatim>\<open>import\<close> declarations: it is module code, which is strict, and there the assignment
  \<^verbatim>\<open>out.finalTest.questions = ...\<close> throws a TypeError when \<^verbatim>\<open>out.finalTest\<close> is a number, a
  string or \<^verbatim>\<open>true\<close>. The assignment writes into the object that \<^verbatim>\<open>parsed.finalTest\<close> also
  refers to; the model gives the returned value and leaves that update of the argument out.
\<close>

definition normalizeHead :: "jsval \<Rightarrow> (string \<times> jsval) list" where
  "normalizeHead parsed =
     (let out0 = spread parsed;
          out1 = setProp ''courseTitle''
                   (or_else (getProp (JObj out0) ''courseTitle'') (JStr ''Untitled Course'')) out0;
          out2 = setProp ''courseDescription''
                   (or_else (getProp (JObj out1) ''courseDescription'')
                      (JStr ''AI-generated course from the uploaded syllabus.'')) out1;
          units = (case getProp (JObj out2) ''units'' of JArr us ps \<Rightarrow> us | _ \<Rightarrow> [])
      in setProp ''units'' (JArr (map (\<lambda>(ui, u). normalizeUnit ui u) (indexed units)) []) out2)"

definition normalizeCourseJSON :: "rng \<Rightarrow> nat \<Rightarrow> jsval \<Rightarrow> error + (jsval \<times> nat)" where
  "normalizeCourseJSON rnd c parsed =
     (let out3 = normalizeHead parsed;
          ft = or_else (getProp (JObj out3) ''finalTest'') (JObj [])
      in case normalizeQuestions rnd c ft of
           Inl e \<Rightarrow> Inl e
         | Inr (qs, c') \<Rightarrow>
             (case ft of
                JObj fkv \<Rightarrow>
                  Inr (JObj (setProp ''finalTest''
                               (JObj (setProp ''questions'' (JArr qs []) fkv)) out3), c')
              | JArr xs fps \<Rightarrow>
                  Inr (JObj (setProp ''finalTest''
                               (JArr xs (setProp ''questions'' (JArr qs []) fps)) out3), c')
              | _ \<Rightarrow> Inl TypeError))"

section \<open>The Lenient JSON Extractor (server: safeParseJson; App.jsx: parseJSONLoosely)\<close>

text \<open>
  \<^verbatim>\<open>JSON.parse\<close> is a built-in of the language, not code of this repository: it is the
  parameter \<open>parse\<close>, which gives \<open>Some v\<close> for the parsed value and \<open>None\<close> where
  \<^verbatim>\<open>JSON.parse\<close> throws its SyntaxError.
\<close>

type_synonym parser = "string \<Rightarrow> jsval option"

text \<open>
  \<^verbatim>\<open>raw.match(/\{[\s\S]*\}/)\<close>, as a backtracking matcher runs it. \<open>greedyToBrace\<close> is
  \<^verbatim>\<open>[\s\S]*\}\<close> at the start of a string: the star first takes the next character and the
  rest of the pattern is tried on what follows; when that fails, the star stops and the
  closing brace must be the next character. \<open>matchAtStart\<close> is the whole pattern at the start
  of a string, and \<open>regexMatch\<close> tries the start positions from the left.
\<close>

fun greedyToBrace :: "string \<Rightarrow> string option" where
  "greedyToBrace [] = None"
| "greedyToBrace (ch # rest) =
     (case greedyToBrace rest of
        Some m \<Rightarrow> Some (ch # m)
      | None \<Rightarrow> (if ch = CHR ''}'' then Some [ch] else None))"

definition matchAtStart :: "string \<Rightarrow> string option" where
  "matchAtStart s =
     (case s of
        [] \<Rightarrow> None
      | ch # rest \<Rightarrow>
          (if ch = CHR ''{'' then map_option (\<lambda>m. ch # m) (greedyToBrace rest) else None))"

fun regexMatch :: "string \<Rightarrow> string option" where
  "regexMatch [] = None"
| "regexMatch (ch # rest) =
     (case matchAtStart (ch # rest) of
        Some m \<Rightarrow> Some m
      | None \<Rightarrow> regexMatch rest)"

text \<open>
  \<^verbatim>\<open>
  function safeParseJson(raw) {
    try {
      return JSON.parse(raw);
    } catch {
      const m = String(raw || "").match(/\{[\s\S]*\}/);
      if (!m) throw new Error("Model output was not valid JSON.");
      return JSON.parse(m[0]);
    }
  }
  \<close>
  Every caller passes the string that \<open>extractText\<close> returns. The second
  \<^verbatim>\<open>JSON.parse\<close> stands outside the \<^verbatim>\<open>try\<close>: its SyntaxError leaves the function as it is.
\<close>

definition safeParseJson :: "parser \<Rightarrow> string \<Rightarrow> error + jsval" where
  "safeParseJson parse raw =
     (case parse raw of
        Some v \<Rightarrow> Inr v
      | None \<Rightarrow>
          (case regexMatch raw of
             None \<Rightarrow> Inl (Error ''Model output was not valid JSON.'')
           | Some m \<Rightarrow> (case parse m of Some v \<Rightarrow> Inr v | None \<Rightarrow> Inl SyntaxError)))"

text \<open>
  \<^verbatim>\<open>
  const parseJSONLoosely = (raw) => {
    if (!raw || typeof raw !== "string") throw new Error("Empty AI response");
    try {
      return JSON.parse(raw);
    } catch {
      const m = raw.match(/\{[\s\S]*\}/);
      if (!m) throw new Error("AI response did not contain valid JSON.");
      return JSON.parse(m[0]);
    }
  };
  \<close>
\<close>

definition parseJSONLoosely :: "parser \<Rightarrow> jsval \<Rightarrow> error + jsval" where
  "parseJSONLoosely parse raw =
     (case raw of
        JStr s \<Rightarrow>
          (if s = [] then Inl (Error ''Empty AI response'')
           else case parse s of
             Some v \<Rightarrow> Inr v
           | None \<Rightarrow>
               (case regexMatch s of
                  None \<Rightarrow> Inl (Error ''AI response did not contain valid JSON.'')
                | Some m \<Rightarrow> (case parse m of Some v \<Rightarrow> Inr v | None \<Rightarrow> Inl SyntaxError)))
      | _ \<Rightarrow> Inl (Error ''Empty AI response''))"

section \<open>The Model Client (server: extractText, openaiResponses)\<close>

fun isArray :: "jsval \<Rightarrow> bool" where
  "isArray (JArr xs ps) = True"
| "isArray v = False"

fun elements :: "jsval \<Rightarrow> jsval list" where
  "elements (JArr xs ps) = xs"
| "elements v = []"

text \<open>\<^verbatim>\<open>a ?? b\<close>\<close>

definition nullish_or :: "jsval \<Rightarrow> jsval \<Rightarrow> jsval" where
  "nullish_or a b = (if nullish a then b else a)"

text \<open>
  The characters that \<^verbatim>\<open>trim\<close> removes, among the 8-bit ones; \<open>blank s\<close> says that
  \<^verbatim>\<open>s.trim()\<close> is the empty string.
\<close>

definition isWhiteSpace :: "char \<Rightarrow> bool" where
  "isWhiteSpace ch =
     (ch = CHR 0x09 \<or> ch = CHR 0x0A \<or> ch = CHR 0x0B \<or> ch = CHR 0x0C \<or> ch = CHR 0x0D \<or>
      ch = CHR 0x20 \<or> ch = CHR 0xA0)"

definition blank :: "string \<Rightarrow> bool" where
  "blank s = list_all isWhiteSpace s"

text \<open>
  \<^verbatim>\<open>
  function extractText(data) {
    if (typeof data?.output_text === "string" && data.output_text.trim()) return data.output_text;
    const parts = [];
    for (const item of data?.output || []) {
      if (item?.type === "message" && Array.isArray(item.content)) {
        for (const c of item.content) {
          if (c?.type === "output_text" && typeof c.text === "string") parts.push(c.text);
        }
      } else if (item?.type === "output_text" && typeof item.text === "string") {
        parts.push(item.text);
      }
    }
    return parts.join("");
  }
  \<close>
  \<open>outputText v\<close> is what a block of type \<^verbatim>\<open>output_text\<close> adds to \<^verbatim>\<open>parts\<close>, \<open>itemText\<close>
  what one item of \<^verbatim>\<open>output\<close> adds. The loop runs over an array; over a string it runs over
  its characters, which have no \<^verbatim>\<open>type\<close>; any other truthy \<^verbatim>\<open>output\<close> is not iterable
  and the loop throws a TypeError.
\<close>

definition outputText :: "jsval \<Rightarrow> string" where
  "outputText v =
     (if getProp v ''type'' = JStr ''output_text''
      then (case getProp v ''text'' of JStr t \<Rightarrow> t | _ \<Rightarrow> [])
      else [])"

definition itemText :: "jsval \<Rightarrow> string" where
  "itemText item =
     (if getProp item ''type'' = JStr ''message'' \<and> isArray (getProp item ''content'')
      then concat (map outputText (elements (getProp item ''content'')))
      else outputText item)"

definition outputParts :: "jsval \<Rightarrow> error + string" where
  "outputParts data =
     (case or_else (getProp data ''output'') (JArr [] []) of
        JArr items ps \<Rightarrow> Inr (concat (map itemText items))
      | JStr s \<Rightarrow> Inr []
      | _ \<Rightarrow> Inl TypeError)"

definition extractText :: "jsval \<Rightarrow> error + string" where
  "extractText data =
     (case getProp data ''output_text'' of
        JStr t \<Rightarrow> (if \<not> blank t then Inr t else outputParts data)
      | _ \<Rightarrow> outputParts data)"

text \<open>
  Whether the conversion of a value to a string, in a template literal or in
  \<^verbatim>\<open>new Error(v)\<close>, throws. A value from \<^verbatim>\<open>JSON.parse\<close> holds no function: an object with
  an own property \<^verbatim>\<open>toString\<close> has no usable conversion method and the conversion throws a
  TypeError; an array is joined from the conversions of its elements.
\<close>

fun toStringThrows :: "jsval \<Rightarrow> bool" where
  "toStringThrows (JObj kv) = (map_of kv ''toString'' \<noteq> None)"
| "toStringThrows (JArr xs ps) = list_ex toStringThrows xs"
| "toStringThrows v = False"

text \<open>
  What the model is asked, given by the values that the prompt builders place into their
  fixed templates; the rendered text itself is not modelled.
\<close>

datatype prompt =
    OcrInput jsval jsval
  | CoursePrompt string jsval
  | QuizPrompt jsval jsval
  | AnalyzePrompt jsval jsval jsval jsval jsval
  | FocusedPrompt jsval jsval jsval jsval jsval jsval

record request =
  model :: jsval
  input :: prompt
  max_output_tokens :: nat
  json_object :: bool

text \<open>
  The outcome of \<^verbatim>\<open>fetch\<close>: the promise rejects, or a response arrives with its \<^verbatim>\<open>ok\<close> flag,
  its status and its body as JSON (\<open>None\<close> when \<^verbatim>\<open>r.json()\<close> fails). The network answers
  the call number n with \<open>net n req\<close>; the list of the requests sent so far is the state.
\<close>

datatype fetched = Rejected | Responded bool nat "jsval option"

type_synonym network = "nat \<Rightarrow> request \<Rightarrow> fetched"

record config =
  apiKey :: string
  defaultModel :: string
  visionModel :: string

text \<open>
  \<^verbatim>\<open>new Error(msg)\<close> for the message of a failed upstream call: a string as it is, another
  value through its conversion to a string.
\<close>

definition newError :: "jsval \<Rightarrow> error" where
  "newError msg =
     (case msg of
        JStr s \<Rightarrow> Error s
      | _ \<Rightarrow> (if toStringThrows msg then TypeError else ErrorOf msg))"

definition missingKey :: string where
  "missingKey = ''Missing OPENAI_API_KEY. Set it in backend/.env (or hosting env vars).''"

text \<open>
  \<^verbatim>\<open>
  async function openaiResponses({ model, input, max_output_tokens = 4000, json_object = false }) {
    if (!OPENAI_API_KEY) throw new Error("Missing OPENAI_API_KEY. ...");
    const body = { ... };
    const r = await fetch(OPENAI_URL, { ... });
    const d = await r.json().catch(() => ({}));
    if (!r.ok) {
      const msg = d?.error?.message || d?.message || `OpenAI error (${r.status})`;
      throw new Error(msg);
    }
    return d;
  }
  \<close>
\<close>

definition openaiResponses ::
  "string \<Rightarrow> network \<Rightarrow> request list \<Rightarrow> request \<Rightarrow> (error + jsval) \<times> request list" where
  "openaiResponses key net sent req =
     (if key = [] then (Inl (Error missingKey), sent)
      else case net (length sent) req of
        Rejected \<Rightarrow> (Inl TypeError, sent @ [req])
      | Responded ok status body \<Rightarrow>
          (let d = (case body of Some v \<Rightarrow> v | None \<Rightarrow> JObj [])
           in if \<not> ok
              then (Inl (newError
                      (or_else (getProp (getProp d ''error'') ''message'')
                         (or_else (getProp d ''message'')
                            (JStr (''OpenAI error ('' @ show_nat status @ '')''))))),
                    sent @ [req])
              else (Inr d, sent @ [req])))"

text \<open>\<^verbatim>\<open>extractText(await openaiResponses({...}))\<close>, as every route calls the model.\<close>

definition modelText ::
  "config \<Rightarrow> network \<Rightarrow> request list \<Rightarrow> request \<Rightarrow> (error + string) \<times> request list" where
  "modelText cfg net sent req =
     (case openaiResponses (apiKey cfg) net sent req of
        (Inl e, sent') \<Rightarrow> (Inl e, sent')
      | (Inr d, sent') \<Rightarrow> (extractText d, sent'))"

text \<open>\<^verbatim>\<open>safeParseJson(extractText(await openaiResponses({...})))\<close>\<close>

definition modelJson ::
  "config \<Rightarrow> parser \<Rightarrow> network \<Rightarrow> request list \<Rightarrow> request \<Rightarrow> (error + jsval) \<times> request list" where
  "modelJson cfg parse net sent req =
     (case modelText cfg net sent req of
        (Inl e, sent') \<Rightarrow> (Inl e, sent')
      | (Inr t, sent') \<Rightarrow> (safeParseJson parse t, sent'))"

section \<open>The routes (server)\<close>

text \<open>
  What a route answers: status 400 with \<^verbatim>\<open>{ error: msg }\<close>; status 500 from the \<^verbatim>\<open>catch\<close>
  with the message of the error caught (or the route's fallback text when that is empty);
  status 200 with \<^verbatim>\<open>{ text }\<close>, with \<^verbatim>\<open>{ jsonText: JSON.stringify(v) }\<close> or with
  \<^verbatim>\<open>{ jsonText }\<close>. \<^verbatim>\<open>JSON.stringify\<close> itself is not modelled: \<open>OkJsonOf v\<close> carries the value
  that is serialised.
\<close>

datatype response =
    BadRequest string
  | ServerError error
  | OkText string
  | OkJsonOf jsval
  | OkJsonText string

text \<open>
  \<^verbatim>\<open>
  app.post("/api/ai/ocr-image", async (req, res) => {
    try {
      const { imageDataUrl, instruction, model } = req.body || {};
      if (!imageDataUrl) return res.status(400).json({ error: "imageDataUrl is required" });
      const usedModel = model || OPENAI_VISION_MODEL;
      const usedInstruction = instruction || "OCR this image ...";
      const input = [ ... ];
      const d = await openaiResponses({ model: usedModel, input, max_output_tokens: 4000,
                                        json_object: false });
      res.json({ text: extractText(d) });
    } catch (e) {
      res.status(500).json({ error: e.message || "OCR failed" });
    }
  });
  \<close>
  Every route returns its answer and the requests it sent to the model.
\<close>

definition ocrImage :: "config \<Rightarrow> network \<Rightarrow> jsval \<Rightarrow> response \<times> request list" where
  "ocrImage cfg net reqBody =
     (let body = or_else reqBody (JObj []);
          imageDataUrl = getProp body ''imageDataUrl'';
          usedModel = or_else (getProp body ''model'') (JStr (visionModel cfg));
          usedInstruction = or_else (getProp body ''instruction'')
            (JStr ''OCR this image and extract ALL visible text verbatim. Return only raw text.'')
      in if \<not> truthy imageDataUrl then (BadRequest ''imageDataUrl is required'', [])
         else case modelText cfg net []
                \<lparr>model = usedModel, input = OcrInput usedInstruction imageDataUrl,
                  max_output_tokens = 4000, json_object = False\<rparr> of
           (Inl e, sent) \<Rightarrow> (ServerError e, sent)
         | (Inr t, sent) \<Rightarrow> (OkText t, sent))"

text \<open>
  \<^verbatim>\<open>buildCourseOnlyPrompt({ syllabusText, settings })\<close> with
  \<^verbatim>\<open>const minWords = settings?.minimumLessonWords ?? 300\<close>, and
  \<^verbatim>\<open>buildQuizOnlyPrompt({ courseOutline, settings })\<close> with
  \<^verbatim>\<open>const quizCount = settings?.quizCountTarget ?? 20\<close>: the template literal converts the
  number to a string, and the outline goes through \<^verbatim>\<open>JSON.stringify\<close>.
\<close>

definition buildCourseOnlyPrompt :: "string \<Rightarrow> jsval \<Rightarrow> error + prompt" where
  "buildCourseOnlyPrompt syllabusText settings =
     (let minWords = nullish_or (getProp settings ''minimumLessonWords'') (JNum 300)
      in if toStringThrows minWords then Inl TypeError
         else Inr (CoursePrompt syllabusText minWords))"

definition buildQuizOnlyPrompt :: "jsval \<Rightarrow> jsval \<Rightarrow> error + prompt" where
  "buildQuizOnlyPrompt courseOutline settings =
     (let quizCount = nullish_or (getProp settings ''quizCountTarget'') (JNum 20)
      in if toStringThrows quizCount then Inl TypeError
         else Inr (QuizPrompt courseOutline quizCount))"

text \<open>A \<^verbatim>\<open>map\<close> whose callback may throw: the first error ends it.\<close>

fun mapE :: "('a \<Rightarrow> error + 'b) \<Rightarrow> 'a list \<Rightarrow> error + 'b list" where
  "mapE f [] = Inr []"
| "mapE f (x # xs) =
     (case f x of
        Inl e \<Rightarrow> Inl e
      | Inr y \<Rightarrow> (case mapE f xs of Inl e \<Rightarrow> Inl e | Inr ys \<Rightarrow> Inr (y # ys)))"

text \<open>
  \<^verbatim>\<open>
  const outlineForQuiz = {
    courseTitle: courseObj.courseTitle,
    units: (courseObj.units || []).map((u) => ({
      id: u.id,
      title: u.title,
      lessons: (u.lessons || []).map((l) => ({ id: l.id, title: l.title })),
    })),
  };
  \<close>
  The property reads are plain ones: on null they throw. A truthy \<^verbatim>\<open>units\<close> or
  \<^verbatim>\<open>lessons\<close> that is not an array has no \<^verbatim>\<open>map\<close> method, and the call throws.
\<close>

definition outlineLesson :: "jsval \<Rightarrow> error + jsval" where
  "outlineLesson l =
     (if nullish l then Inl TypeError
      else Inr (JObj [(''id'', getProp l ''id''), (''title'', getProp l ''title'')]))"

definition outlineUnit :: "jsval \<Rightarrow> error + jsval" where
  "outlineUnit u =
     (if nullish u then Inl TypeError
      else case or_else (getProp u ''lessons'') (JArr [] []) of
        JArr ls ps \<Rightarrow>
          (case mapE outlineLesson ls of
             Inl e \<Rightarrow> Inl e
           | Inr ls' \<Rightarrow>
               Inr (JObj [(''id'', getProp u ''id''), (''title'', getProp u ''title''),
                          (''lessons'', JArr ls' [])]))
      | _ \<Rightarrow> Inl TypeError)"

definition outlineForQuiz :: "jsval \<Rightarrow> error + jsval" where
  "outlineForQuiz courseObj =
     (if nullish courseObj then Inl TypeError
      else case or_else (getProp courseObj ''units'') (JArr [] []) of
        JArr us ps \<Rightarrow>
          (case mapE outlineUnit us of
             Inl e \<Rightarrow> Inl e
           | Inr us' \<Rightarrow>
               Inr (JObj [(''courseTitle'', getProp courseObj ''courseTitle''),
                          (''units'', JArr us' [])]))
      | _ \<Rightarrow> Inl TypeError)"

text \<open>
  \<^verbatim>\<open>target.k = v\<close> in module code: an object or an array takes the property, null and
  undefined have none, and on another primitive the assignment throws as well.
\<close>

definition assignProp :: "jsval \<Rightarrow> string \<Rightarrow> jsval \<Rightarrow> error + jsval" where
  "assignProp target k v =
     (case target of
        JObj kv \<Rightarrow> Inr (JObj (setProp k v kv))
      | JArr xs ps \<Rightarrow> Inr (JArr xs (setProp k v ps))
      | _ \<Rightarrow> Inl TypeError)"

text \<open>\<^verbatim>\<open>courseObj.finalTest = quizObj.finalTest;\<close>\<close>

definition mergeQuiz :: "jsval \<Rightarrow> jsval \<Rightarrow> error + jsval" where
  "mergeQuiz courseObj quizObj =
     (if nullish quizObj then Inl TypeError
      else assignProp courseObj ''finalTest'' (getProp quizObj ''finalTest''))"

text \<open>
  \<^verbatim>\<open>
  app.post("/api/ai/generate-course", async (req, res) => {
    try {
      const { syllabusText, settings, model } = req.body || {};
      if (!syllabusText || typeof syllabusText !== "string") {
        return res.status(400).json({ error: "syllabusText (string) is required" });
      }
      const usedModel = model || OPENAI_MODEL;
      const trimmed = syllabusText.slice(0, 24000);
      // Pass 1: course (no quiz)
      const coursePrompt = buildCourseOnlyPrompt({ syllabusText: trimmed, settings });
      const d1 = await openaiResponses({ model: usedModel,
        input: [{ role: "user", content: coursePrompt }],
        max_output_tokens: 12000, json_object: true });
      const courseObj = safeParseJson(extractText(d1));
      // Pass 2: quiz only
      const outlineForQuiz = { ... };
      const quizPrompt = buildQuizOnlyPrompt({ courseOutline: outlineForQuiz, settings });
      const d2 = await openaiResponses({ model: usedModel,
        input: [{ role: "user", content: quizPrompt }],
        max_output_tokens: 5000, json_object: true });
      const quizObj = safeParseJson(extractText(d2));
      // Merge
      courseObj.finalTest = quizObj.finalTest;
      res.json({ jsonText: JSON.stringify(courseObj) });
    } catch (e) {
      res.status(500).json({ error: e.message || "Course generation failed" });
    }
  });
  \<close>
  \<open>generateQuiz\<close> is the route from \<^verbatim>\<open>// Pass 2\<close> on, \<open>generateCourse\<close> the whole route.
\<close>

definition generateQuiz ::
  "config \<Rightarrow> parser \<Rightarrow> network \<Rightarrow> request list \<Rightarrow> jsval \<Rightarrow> jsval \<Rightarrow> jsval \<Rightarrow>
     response \<times> request list" where
  "generateQuiz cfg parse net sent1 usedModel settings courseObj =
     (case outlineForQuiz courseObj of
        Inl e \<Rightarrow> (ServerError e, sent1)
      | Inr outline \<Rightarrow>
          (case buildQuizOnlyPrompt outline settings of
             Inl e \<Rightarrow> (ServerError e, sent1)
           | Inr quizPrompt \<Rightarrow>
               (case modelJson cfg parse net sent1
                       \<lparr>model = usedModel, input = quizPrompt,
                         max_output_tokens = 5000, json_object = True\<rparr> of
                  (Inl e, sent2) \<Rightarrow> (ServerError e, sent2)
                | (Inr quizObj, sent2) \<Rightarrow>
                    (case mergeQuiz courseObj quizObj of
                       Inl e \<Rightarrow> (ServerError e, sent2)
                     | Inr merged \<Rightarrow> (OkJsonOf merged, sent2)))))"

definition generateCourse ::
  "config \<Rightarrow> parser \<Rightarrow> network \<Rightarrow> jsval \<Rightarrow> response \<times> request list" where
  "generateCourse cfg parse net reqBody =
     (let body = or_else reqBody (JObj []);
          settings = getProp body ''settings'';
          usedModel = or_else (getProp body ''model'') (JStr (defaultModel cfg))
      in case getProp body ''syllabusText'' of
           JStr syllabusText \<Rightarrow>
             (if syllabusText = [] then (BadRequest ''syllabusText (string) is required'', [])
              else case buildCourseOnlyPrompt (take 24000 syllabusText) settings of
                Inl e \<Rightarrow> (ServerError e, [])
              | Inr coursePrompt \<Rightarrow>
                  (case modelJson cfg parse net []
                          \<lparr>model = usedModel, input = coursePrompt,
                            max_output_tokens = 12000, json_object = True\<rparr> of
                     (Inl e, sent1) \<Rightarrow> (ServerError e, sent1)
                   | (Inr courseObj, sent1) \<Rightarrow>
                       generateQuiz cfg parse net sent1 usedModel settings courseObj))
         | _ \<Rightarrow> (BadRequest ''syllabusText (string) is required'', []))"

text \<open>
  The prompt of the analyze-test route, a template literal with
  \<^verbatim>\<open>${courseTitle || "a course"}\<close>, \<^verbatim>\<open>${score?.pct ?? "?"}\<close>, \<^verbatim>\<open>${score?.correct ?? "?"}\<close>,
  \<^verbatim>\<open>${score?.total ?? "?"}\<close> and \<^verbatim>\<open>${JSON.stringify(wrong, null, 2)}\<close>.
\<close>

definition analyzePrompt :: "jsval \<Rightarrow> jsval \<Rightarrow> jsval \<Rightarrow> error + prompt" where
  "analyzePrompt courseTitle score wrong =
     (let title = or_else courseTitle (JStr ''a course'');
          pct = nullish_or (getProp score ''pct'') (JStr ''?'');
          correct = nullish_or (getProp score ''correct'') (JStr ''?'');
          total = nullish_or (getProp score ''total'') (JStr ''?'')
      in if toStringThrows title \<or> toStringThrows pct \<or> toStringThrows correct \<or>
            toStringThrows total
         then Inl TypeError
         else Inr (AnalyzePrompt title pct correct total wrong))"

text \<open>
  \<^verbatim>\<open>
  app.post("/api/ai/analyze-test", async (req, res) => {
    try {
      const { courseTitle, score, wrong, model } = req.body || {};
      const usedModel = model || OPENAI_MODEL;
      if (!Array.isArray(wrong)) return res.status(400).json({ error: "wrong must be an array" });
      const prompt = `...`;
      const d = await openaiResponses({ model: usedModel,
        input: [{ role: "user", content: prompt }],
        max_output_tokens: 900, json_object: false });
      res.json({ text: extractText(d) });
    } catch (e) {
      res.status(500).json({ error: e.message || "Analysis failed" });
    }
  });
  \<close>
\<close>

definition analyzeTest :: "config \<Rightarrow> network \<Rightarrow> jsval \<Rightarrow> response \<times> request list" where
  "analyzeTest cfg net reqBody =
     (let body = or_else reqBody (JObj []);
          wrong = getProp body ''wrong'';
          usedModel = or_else (getProp body ''model'') (JStr (defaultModel cfg))
      in if \<not> isArray wrong then (BadRequest ''wrong must be an array'', [])
         else case analyzePrompt (getProp body ''courseTitle'') (getProp body ''score'') wrong of
           Inl e \<Rightarrow> (ServerError e, [])
         | Inr prompt \<Rightarrow>
             (case modelText cfg net []
                     \<lparr>model = usedModel, input = prompt,
                       max_output_tokens = 900, json_object = False\<rparr> of
                (Inl e, sent) \<Rightarrow> (ServerError e, sent)
              | (Inr t, sent) \<Rightarrow> (OkText t, sent)))"

text \<open>
  \<^verbatim>\<open>${(sourceText || "").slice(0, 24000)}\<close> of buildFocusedPrompt: a string is cut, an array
  is cut and then converted to a string, and any other truthy value has no \<^verbatim>\<open>slice\<close> method.
\<close>

definition sourceExcerpt :: "jsval \<Rightarrow> error + jsval" where
  "sourceExcerpt sourceText =
     (case or_else sourceText (JStr []) of
        JStr s \<Rightarrow> Inr (JStr (take 24000 s))
      | JArr xs ps \<Rightarrow>
          (if list_ex toStringThrows (take 24000 xs) then Inl TypeError
           else Inr (JArr (take 24000 xs) []))
      | _ \<Rightarrow> Inl TypeError)"

text \<open>
  \<^verbatim>\<open>buildFocusedPrompt({ originalCourse, wrongAnswers, priorAnalysis, sourceText, settings })\<close>
  with \<^verbatim>\<open>const minWords = settings?.minimumLessonWords ?? 300\<close>,
  \<^verbatim>\<open>const quizCount = settings?.quizCountTarget ?? 18\<close>, \<^verbatim>\<open>${priorAnalysis || "(none)"}\<close>,
  and the course and the wrong answers through \<^verbatim>\<open>JSON.stringify\<close>.
\<close>

definition buildFocusedPrompt ::
  "jsval \<Rightarrow> jsval \<Rightarrow> jsval \<Rightarrow> jsval \<Rightarrow> jsval \<Rightarrow> error + prompt" where
  "buildFocusedPrompt originalCourse wrongAnswers priorAnalysis sourceText settings =
     (let minWords = nullish_or (getProp settings ''minimumLessonWords'') (JNum 300);
          quizCount = nullish_or (getProp settings ''quizCountTarget'') (JNum 18);
          analysis = or_else priorAnalysis (JStr ''(none)'')
      in if toStringThrows minWords \<or> toStringThrows quizCount \<or> toStringThrows analysis
         then Inl TypeError
         else case sourceExcerpt sourceText of
           Inl e \<Rightarrow> Inl e
         | Inr excerpt \<Rightarrow>
             Inr (FocusedPrompt originalCourse wrongAnswers analysis excerpt minWords quizCount))"

text \<open>
  \<^verbatim>\<open>
  app.post("/api/ai/focused-course", async (req, res) => {
    try {
      const { originalCourse, wrongAnswers, priorAnalysis, sourceText, settings, model } =
        req.body || {};
      const usedModel = model || OPENAI_MODEL;
      if (!originalCourse) return res.status(400).json({ error: "originalCourse is required" });
      if (!Array.isArray(wrongAnswers) || wrongAnswers.length === 0) {
        return res.status(400).json({ error: "wrongAnswers must be a non-empty array" });
      }
      const prompt = buildFocusedPrompt({ originalCourse, wrongAnswers, priorAnalysis,
                                          sourceText, settings });
      const d = await openaiResponses({ model: usedModel,
        input: [{ role: "user", content: prompt }],
        max_output_tokens: 15000, json_object: true });
      res.json({ jsonText: extractText(d) });
    } catch (e) {
      res.status(500).json({ error: e.message || "Focused course generation failed" });
    }
  });
  \<close>
\<close>

definition focusedCourse :: "config \<Rightarrow> network \<Rightarrow> jsval \<Rightarrow> response \<times> request list" where
  "focusedCourse cfg net reqBody =
     (let body = or_else reqBody (JObj []);
          originalCourse = getProp body ''originalCourse'';
          wrongAnswers = getProp body ''wrongAnswers'';
          usedModel = or_else (getProp body ''model'') (JStr (defaultModel cfg))
      in if \<not> truthy originalCourse then (BadRequest ''originalCourse is required'', [])
         else if \<not> isArray wrongAnswers \<or> elements wrongAnswers = []
         then (BadRequest ''wrongAnswers must be a non-empty array'', [])
         else case buildFocusedPrompt originalCourse wrongAnswers (getProp body ''priorAnalysis'')
                     (getProp body ''sourceText'') (getProp body ''settings'') of
           Inl e \<Rightarrow> (ServerError e, [])
         | Inr prompt \<Rightarrow>
             (case modelText cfg net []
                     \<lparr>model = usedModel, input = prompt,
                       max_output_tokens = 15000, json_object = True\<rparr> of
                (Inl e, sent) \<Rightarrow> (ServerError e, sent)
              | (Inr t, sent) \<Rightarrow> (OkJsonText t, sent)))"

section \<open>Shapes and inputs used in the statements\<close>

text \<open>
  The object literal that the first \<^verbatim>\<open>map\<close> over the questions builds, with the validated
  \<^verbatim>\<open>correctAnswer\<close> as a natural number.
\<close>

definition question_obj :: "jsval \<Rightarrow> jsval \<Rightarrow> jsval list \<Rightarrow> nat \<Rightarrow> jsval \<Rightarrow> jsval" where
  "question_obj idv qv opts ca ev = JObj
     [(''id'', idv), (''question'', qv), (''options'', JArr opts []),
      (''correctAnswer'', JNum (of_nat ca)), (''explanation'', ev)]"

text \<open>
  \<open>reshuffled p q\<close>: \<open>q\<close> is the question \<open>p\<close> with its four options rearranged and
  \<^verbatim>\<open>correctAnswer\<close> pointing at the option it pointed at in \<open>p\<close>.
\<close>

definition reshuffled :: "jsval \<Rightarrow> jsval \<Rightarrow> bool" where
  "reshuffled p q = (\<exists>idv qv opts ca ev opts' k.
      p = question_obj idv qv opts ca ev \<and> q = question_obj idv qv opts' k ev \<and>
      length opts = 4 \<and> ca < 4 \<and>
      length opts' = 4 \<and> k < 4 \<and> mset opts' = mset opts \<and> opts' ! k = opts ! ca)"

text \<open>A random source whose every draw is 0, and a course whose question repeats an option.\<close>

definition zero_rng :: rng where
  "zero_rng c = 0"

definition dup_course :: jsval where
  "dup_course = JObj [(''finalTest'', JObj [(''questions'', JArr
     [JObj [(''options'', JArr [JStr ''A'', JStr ''A'', JStr ''B'', JStr ''C''] []),
            (''correctAnswer'', JNum 0)]] [])])]"

text \<open>A course with one question of five options, the third being the correct one.\<close>

definition five_options :: "jsval list" where
  "five_options = [JStr ''a'', JStr ''b'', JStr ''c'', JStr ''d'', JStr ''e'']"

definition five_question :: jsval where
  "five_question = JObj [(''options'', JArr five_options []), (''correctAnswer'', JNum 2)]"

definition five_course :: jsval where
  "five_course = JObj [(''finalTest'', JObj [(''questions'', JArr [five_question] [])])]"

text \<open>
  What two courses are compared on when the order of each question's options is left aside:
  the course without \<^verbatim>\<open>finalTest\<close>, \<^verbatim>\<open>finalTest\<close> without \<^verbatim>\<open>questions\<close>, and of each
  question the question without \<^verbatim>\<open>options\<close> and \<^verbatim>\<open>correctAnswer\<close>, its options as a multiset
  and the option \<^verbatim>\<open>options[correctAnswer]\<close>.
\<close>

definition without :: "string \<Rightarrow> jsval \<Rightarrow> jsval" where
  "without k v =
     (case v of
        JObj kv \<Rightarrow> JObj (filter (\<lambda>p. fst p \<noteq> k) kv)
      | JArr xs ps \<Rightarrow> JArr xs (filter (\<lambda>p. fst p \<noteq> k) ps)
      | _ \<Rightarrow> v)"

definition questionsOf :: "jsval \<Rightarrow> jsval list" where
  "questionsOf course =
     (case getProp (getProp course ''finalTest'') ''questions'' of
        JArr qs ps \<Rightarrow> qs
      | _ \<Rightarrow> [])"

definition optionsOf :: "jsval \<Rightarrow> jsval list" where
  "optionsOf q = (case getProp q ''options'' of JArr os ps \<Rightarrow> os | _ \<Rightarrow> [])"

definition correctOption :: "jsval \<Rightarrow> jsval" where
  "correctOption q =
     (case getProp q ''correctAnswer'' of
        JNum r \<Rightarrow>
          (if isInteger r \<and> 0 \<le> r \<and> nat \<lfloor>r\<rfloor> < length (optionsOf q)
           then optionsOf q ! nat \<lfloor>r\<rfloor> else JUndefined)
      | _ \<Rightarrow> JUndefined)"

definition questionView :: "jsval \<Rightarrow> jsval \<times> jsval multiset \<times> jsval" where
  "questionView q =
     (without ''options'' (without ''correctAnswer'' q), mset (optionsOf q), correctOption q)"

definition courseView :: "jsval \<Rightarrow> jsval \<times> jsval \<times> (jsval \<times> jsval multiset \<times> jsval) list" where
  "courseView course =
     (without ''finalTest'' course,
      without ''questions'' (getProp course ''finalTest''),
      map questionView (questionsOf course))"

text \<open>A course whose question has three options, and a complete course.\<close>

definition three_course :: jsval where
  "three_course = JObj [(''finalTest'', JObj [(''questions'', JArr
     [JObj [(''options'', JArr [JStr ''x'', JStr ''y'', JStr ''z''] []),
            (''correctAnswer'', JNum 1)]] [])])]"

definition valid_course_with :: "jsval list \<Rightarrow> rat \<Rightarrow> jsval" where
  "valid_course_with opts ca = JObj
     [(''courseTitle'', JStr ''Algebra''),
      (''courseDescription'', JStr ''A first course.''),
      (''units'', JArr
         [JObj [(''id'', JStr ''u1''), (''title'', JStr ''Unit 1: Groups''),
                (''description'', JStr ''Groups and maps''),
                (''lessons'', JArr
                   [JObj [(''id'', JStr ''u1l1''), (''title'', JStr ''Axioms''),
                          (''content'', JStr ''A group is a set with an operation.''),
                          (''keyPoints'', JArr [JStr ''closure'', JStr ''inverse''] [])]] [])]] []),
      (''finalTest'', JObj [(''questions'', JArr
         [JObj [(''id'', JStr ''q1''), (''question'', JStr ''Which one is a group?''),
                (''options'', JArr opts []),
                (''correctAnswer'', JNum ca),
                (''explanation'', JStr ''See lesson 1.'')]] [])])]"

text \<open>
  The wording of the specification for the fallback of the extractor: the substring from the
  first opening brace through the last closing brace after it.
\<close>

definition firstToLastBrace :: "string \<Rightarrow> string option" where
  "firstToLastBrace raw =
     (let fromFirst = dropWhile (\<lambda>ch. ch \<noteq> CHR ''{'') raw;
          throughLast = rev (dropWhile (\<lambda>ch. ch \<noteq> CHR ''}'') (rev (tl fromFirst)))
      in if fromFirst = [] \<or> throughLast = [] then None
         else Some (CHR ''{'' # throughLast))"

text \<open>
  A parser of JSON texts that stands for \<^verbatim>\<open>JSON.parse\<close> in the examples. It reads objects
  (a repeated key keeps its last value), arrays, strings with the two-character escapes,
  numbers without exponent and the three literals, with JSON's white space between the
  tokens, and gives \<open>None\<close> on every other text. The first argument of \<open>parseValue\<close> bounds
  the number of nested calls, and \<open>json_parse\<close> allows twice the length of the text: where it
  returns a value the bound was enough, and the two example texts on which it returns
  \<open>None\<close> begin with a letter that starts no JSON value.
\<close>

definition jsonSpace :: "char \<Rightarrow> bool" where
  "jsonSpace ch = (ch = CHR 0x20 \<or> ch = CHR 0x0A \<or> ch = CHR 0x0D \<or> ch = CHR 0x09)"

definition skipSpace :: "string \<Rightarrow> string" where
  "skipSpace s = dropWhile jsonSpace s"

definition isDigit :: "char \<Rightarrow> bool" where
  "isDigit ch = (ch \<in> set ''0123456789'')"

definition digitsValue :: "string \<Rightarrow> nat" where
  "digitsValue ds = foldl (\<lambda>n ch. 10 * n + (of_char ch - 48)) 0 ds"

definition unescape :: "char \<Rightarrow> char option" where
  "unescape e =
     (if e = CHR 0x22 \<or> e = CHR 0x5C \<or> e = CHR ''/'' then Some e
      else if e = CHR ''b'' then Some (CHR 0x08)
      else if e = CHR ''f'' then Some (CHR 0x0C)
      else if e = CHR ''n'' then Some (CHR 0x0A)
      else if e = CHR ''r'' then Some (CHR 0x0D)
      else if e = CHR ''t'' then Some (CHR 0x09)
      else None)"

fun stringBody :: "string \<Rightarrow> (string \<times> string) option" where
  "stringBody [] = None"
| "stringBody [ch] = (if ch = CHR 0x22 then Some ([], []) else None)"
| "stringBody (ch # e # rest) =
     (if ch = CHR 0x22 then Some ([], e # rest)
      else if ch = CHR 0x5C then
        (case unescape e of
           None \<Rightarrow> None
         | Some u \<Rightarrow> map_option (\<lambda>(s, r). (u # s, r)) (stringBody rest))
      else if (of_char ch :: nat) < 32 then None
      else map_option (\<lambda>(s, r). (ch # s, r)) (stringBody (e # rest)))"

definition numberToken :: "string \<Rightarrow> (rat \<times> string) option" where
  "numberToken s =
     (let (neg, s1) = (case s of ch # r \<Rightarrow> if ch = CHR ''-'' then (True, r) else (False, s)
                                | [] \<Rightarrow> (False, s));
          ds = takeWhile isDigit s1;
          s2 = dropWhile isDigit s1;
          (fs, s3) = (case s2 of
                        ch # r \<Rightarrow> if ch = CHR ''.'' then (takeWhile isDigit r, dropWhile isDigit r)
                                  else ([], s2)
                      | [] \<Rightarrow> ([], s2));
          fracOk = (case s2 of ch # r \<Rightarrow> ch \<noteq> CHR ''.'' \<or> fs \<noteq> [] | [] \<Rightarrow> True);
          intOk = (ds \<noteq> [] \<and> (length ds = 1 \<or> hd ds \<noteq> CHR ''0''));
          expFree = (case s3 of ch # r \<Rightarrow> ch \<noteq> CHR ''e'' \<and> ch \<noteq> CHR ''E'' | [] \<Rightarrow> True);
          v = of_nat (digitsValue ds) + of_nat (digitsValue fs) / 10 ^ length fs
      in if intOk \<and> fracOk \<and> expFree then Some (if neg then - v else v, s3) else None)"

fun parseValue :: "nat \<Rightarrow> string \<Rightarrow> (jsval \<times> string) option"
  and parseElements :: "nat \<Rightarrow> string \<Rightarrow> (jsval list \<times> string) option"
  and parseMembers :: "nat \<Rightarrow> string \<Rightarrow> ((string \<times> jsval) list \<times> string) option" where
  "parseValue 0 s = None"
| "parseValue (Suc n) s =
     (case skipSpace s of
        [] \<Rightarrow> None
      | ch # rest \<Rightarrow>
          if ch = CHR ''{'' then
            (case skipSpace rest of
               [] \<Rightarrow> None
             | c # r \<Rightarrow>
                 if c = CHR ''}'' then Some (JObj [], r)
                 else map_option (\<lambda>(kvs, r'). (JObj (foldl (\<lambda>acc (k, v). setProp k v acc) [] kvs), r'))
                        (parseMembers n rest))
          else if ch = CHR ''['' then
            (case skipSpace rest of
               [] \<Rightarrow> None
             | c # r \<Rightarrow>
                 if c = CHR '']'' then Some (JArr [] [], r)
                 else map_option (\<lambda>(xs, r'). (JArr xs [], r')) (parseElements n rest))
          else if ch = CHR 0x22 then map_option (\<lambda>(str, r). (JStr str, r)) (stringBody rest)
          else if take 4 (ch # rest) = ''true'' then Some (JBool True, drop 4 (ch # rest))
          else if take 5 (ch # rest) = ''false'' then Some (JBool False, drop 5 (ch # rest))
          else if take 4 (ch # rest) = ''null'' then Some (JNull, drop 4 (ch # rest))
          else map_option (\<lambda>(x, r). (JNum x, r)) (numberToken (ch # rest)))"
| "parseElements 0 s = None"
| "parseElements (Suc n) s =
     (case parseValue n s of
        None \<Rightarrow> None
      | Some (v, r) \<Rightarrow>
          (case skipSpace r of
             [] \<Rightarrow> None
           | c # r' \<Rightarrow>
               if c = CHR '','' then map_option (\<lambda>(vs, r''). (v # vs, r'')) (parseElements n r')
               else if c = CHR '']'' then Some ([v], r')
               else None))"
| "parseMembers 0 s = None"
| "parseMembers (Suc n) s =
     (case skipSpace s of
        [] \<Rightarrow> None
      | q # s1 \<Rightarrow>
          if q \<noteq> CHR 0x22 then None
          else case stringBody s1 of
            None \<Rightarrow> None
          | Some (k, s2) \<Rightarrow>
              (case skipSpace s2 of
                 [] \<Rightarrow> None
               | c # s3 \<Rightarrow>
                   if c \<noteq> CHR '':'' then None
                   else case parseValue n s3 of
                     None \<Rightarrow> None
                   | Some (v, r) \<Rightarrow>
                       (case skipSpace r of
                          [] \<Rightarrow> None
                        | d # r' \<Rightarrow>
                            if d = CHR '','' then
                              map_option (\<lambda>(kvs, r''). ((k, v) # kvs, r'')) (parseMembers n r')
                            else if d = CHR ''}'' then Some ([(k, v)], r')
                            else None)))"

definition json_parse :: parser where
  "json_parse s =
     (case parseValue (2 * length s + 2) s of
        None \<Rightarrow> None
      | Some (v, rest) \<Rightarrow> if skipSpace rest = [] then Some v else None)"

text \<open>A response is a success when its status is 200.\<close>

definition succeeded :: "response \<Rightarrow> bool" where
  "succeeded r = (case r of OkText t \<Rightarrow> True | OkJsonOf v \<Rightarrow> True | OkJsonText t \<Rightarrow> True | _ \<Rightarrow> False)"

text \<open>
  A configuration with a key and one without; a model client that answers every first call
  with one text and every later call with another; request bodies and model outputs.
\<close>

definition test_cfg :: config where
  "test_cfg = \<lparr>apiKey = ''sk-test'', defaultModel = ''gpt-4.1'', visionModel = ''gpt-4.1-mini''\<rparr>"

definition no_key_cfg :: config where
  "no_key_cfg = \<lparr>apiKey = [], defaultModel = ''gpt-4.1'', visionModel = ''gpt-4.1-mini''\<rparr>"

definition canned_net :: "string \<Rightarrow> string \<Rightarrow> network" where
  "canned_net t1 t2 n req =
     Responded True 200 (Some (JObj [(''output_text'', JStr (if n = 0 then t1 else t2))]))"

definition syllabus_body :: jsval where
  "syllabus_body = JObj [(''syllabusText'', JStr ''Week 1: groups. Week 2: rings.'')]"

definition course_text :: string where
  "course_text = ''{\"courseTitle\":\"Algebra\",\"units\":[{\"id\":\"u1\",\"title\":\"Groups\",\"lessons\":[{\"id\":\"u1l1\",\"title\":\"Axioms\",\"content\":\"A group is a set.\"}]}]}''"

definition course_props :: "(string \<times> jsval) list" where
  "course_props =
     [(''courseTitle'', JStr ''Algebra''),
      (''units'', JArr
         [JObj [(''id'', JStr ''u1''), (''title'', JStr ''Groups''),
                (''lessons'', JArr
                   [JObj [(''id'', JStr ''u1l1''), (''title'', JStr ''Axioms''),
                          (''content'', JStr ''A group is a set.'')]] [])]] [])]"

definition course_outline :: jsval where
  "course_outline = JObj
     [(''courseTitle'', JStr ''Algebra''),
      (''units'', JArr
         [JObj [(''id'', JStr ''u1''), (''title'', JStr ''Groups''),
                (''lessons'', JArr
                   [JObj [(''id'', JStr ''u1l1''), (''title'', JStr ''Axioms'')]] [])]] [])]"

definition quiz_text :: string where
  "quiz_text = ''{\"finalTest\":{\"questions\":[{\"id\":\"q1\",\"question\":\"Which?\",\"options\":[\"a\",\"b\",\"c\",\"d\"],\"correctAnswer\":1}]}}''"

definition quiz_obj :: jsval where
  "quiz_obj = JObj [(''finalTest'', JObj [(''questions'', JArr
     [JObj [(''id'', JStr ''q1''), (''question'', JStr ''Which?''),
            (''options'', JArr [JStr ''a'', JStr ''b'', JStr ''c'', JStr ''d''] []),
            (''correctAnswer'', JNum 1)]] [])])]"

definition empty_course_text :: string where
  "empty_course_text = ''{}''"

definition empty_quiz_text :: string where
  "empty_quiz_text = ''{\"finalTest\":{\"questions\":[]}}''"

definition prose_text :: string where
  "prose_text = ''I cannot help with that.''"

definition course_reply :: jsval where
  "course_reply = JObj [(''output_text'', JStr course_text)]"

definition quiz_reply :: jsval where
  "quiz_reply = JObj [(''output_text'', JStr quiz_text)]"

definition prose_reply :: jsval where
  "prose_reply = JObj [(''output_text'', JStr prose_text)]"

definition ocr_body :: jsval where
  "ocr_body = JObj [(''imageDataUrl'', JStr ''data:image/png;base64,AAAA'')]"

definition analyze_body :: jsval where
  "analyze_body = JObj [(''courseTitle'', JStr ''Algebra''), (''wrong'', JArr [] [])]"

definition focused_body :: "jsval list \<Rightarrow> jsval" where
  "focused_body wrong = JObj
     [(''originalCourse'', JObj [(''courseTitle'', JStr ''Algebra'')]),
      (''wrongAnswers'', JArr wrong [])]"

text \<open>A model output whose brace span ends at a stray closing brace.\<close>

definition stray_brace_text :: string where
  "stray_brace_text = ''Sure: {\"a\":1} and more }''"

section \<open>Objects, indices and the shuffle\<close>

lemma map_of_setProp: "map_of (setProp k v ps) k' = (if k' = k then Some v else map_of ps k')"
  by (induction ps) auto

lemma setProp_same: "map_of ps k = Some v \<Longrightarrow> setProp k v ps = ps"
  by (induction ps) auto

lemma getProp_setProp:
  "getProp (JObj (setProp k v ps)) k' = (if k' = k then v else getProp (JObj ps) k')"
  by (simp add: map_of_setProp)

lemma getProp_setProp_arr:
  "getProp (JArr xs (setProp k v ps)) k' = (if k' = k then v else getProp (JArr xs ps) k')"
  by (simp add: map_of_setProp)

lemma digit_cases: "d < 10 \<Longrightarrow> digit d \<in> set ''0123456789''"
proof -
  assume "d < 10"
  then consider "d = 0" | "d = 1" | "d = 2" | "d = 3" | "d = 4" | "d = 5" | "d = 6" | "d = 7" | "d = 8" | "d = 9"
    by atomize_elim arith
  then show ?thesis
    by cases (simp_all add: digit_def)
qed

lemma show_nat_digits: "set (show_nat n) \<subseteq> set ''0123456789''"
proof (induction n rule: show_nat.induct)
  case (1 n)
  show ?case
  proof (cases "n < 10")
    case True
    then show ?thesis using digit_cases [of n] by (subst show_nat.simps) simp
  next
    case False
    have "n mod 10 < 10" by simp
    then have "digit (n mod 10) \<in> set ''0123456789''" by (rule digit_cases)
    with False 1 show ?thesis by (subst show_nat.simps) auto
  qed
qed

lemma name_not_index: "CHR ''a'' \<in> set k \<or> CHR ''e'' \<in> set k \<or> CHR ''i'' \<in> set k \<Longrightarrow> k \<notin> range show_nat"
  using show_nat_digits by auto

lemma map_of_indexed_None:
  assumes "k \<notin> range show_nat"
  shows "map_of (map (\<lambda>(i, x). (show_nat i, f x)) (indexed xs)) k = None"
  using assms by (auto simp: map_of_eq_None_iff)

lemma getProp_spread:
  assumes "k \<notin> range show_nat"
  shows "getProp (JObj (spread v)) k = getProp v k"
proof (cases v)
  case (JStr s)
  then show ?thesis using map_of_indexed_None [OF assms, of "\<lambda>c. JStr [c]" s] by (simp add: spread_def)
next
  case (JArr xs ps)
  then show ?thesis using map_of_indexed_None [OF assms, of "\<lambda>x. x" xs]
    by (simp add: spread_def map_add_def)
qed (simp_all add: spread_def)

lemma length_shuffleLoop: "length (fst (shuffleLoop rnd c i a)) = length a"
  by (induction i arbitrary: c a) (simp_all add: Let_def)

lemma snd_shuffleLoop: "snd (shuffleLoop rnd c i a) = c + i"
  by (induction i arbitrary: c a) (simp_all add: Let_def)

lemma draw_in_range:
  assumes "0 \<le> r" "r < 1"
  shows "nat \<lfloor>r * of_nat (Suc k)\<rfloor> \<le> k"
proof -
  have "r * of_nat (Suc k) < of_nat (Suc k)"
    using assms by (simp add: mult_less_cancel_right2 del: of_nat_Suc)
  then have "\<lfloor>r * of_nat (Suc k)\<rfloor> < int (Suc k)"
    by (simp add: floor_less_iff del: of_nat_Suc)
  then show ?thesis by linarith
qed

lemma mset_shuffleLoop:
  "unit_interval rnd \<Longrightarrow> i < length a \<Longrightarrow> mset (fst (shuffleLoop rnd c i a)) = mset a"
proof (induction i arbitrary: c a)
  case 0
  then show ?case by simp
next
  case (Suc k)
  let ?j = "nat \<lfloor>rnd c * of_nat (Suc k + 1)\<rfloor>"
  from Suc.prems(1) have "0 \<le> rnd c" "rnd c < 1" by (simp_all add: unit_interval_def)
  then have "?j \<le> Suc k" using draw_in_range [of "rnd c" "Suc k"] by simp
  with Suc.prems(2) have j: "?j < length a" by simp
  have sw: "mset (a[Suc k := a ! ?j, ?j := a ! Suc k]) = mset a"
    using mset_swap [OF j Suc.prems(2)] .
  have "k < length (a[Suc k := a ! ?j, ?j := a ! Suc k])" using Suc.prems(2) by simp
  from Suc.IH [OF Suc.prems(1) this] sw show ?case by (simp add: Let_def)
qed

lemma shuffleArray_props:
  assumes "unit_interval rnd"
  shows "mset (fst (shuffleArray rnd c xs)) = mset xs"
    and "length (fst (shuffleArray rnd c xs)) = length xs"
    and "snd (shuffleArray rnd c xs) = c + (length xs - 1)"
proof -
  show "mset (fst (shuffleArray rnd c xs)) = mset xs"
  proof (cases xs)
    case Nil
    then show ?thesis by (simp add: shuffleArray_def)
  next
    case (Cons x ys)
    then show ?thesis using mset_shuffleLoop [OF assms, of "length xs - 1" xs c]
      by (simp add: shuffleArray_def)
  qed
qed (simp_all add: shuffleArray_def length_shuffleLoop snd_shuffleLoop)

lemma findIndex_found:
  "\<exists>x\<in>set xs. p x \<Longrightarrow> \<exists>k. findIndex p xs = int k \<and> k < length xs \<and> p (xs ! k)"
proof (induction xs)
  case Nil
  then show ?case by simp
next
  case (Cons x xs)
  show ?case
  proof (cases "p x")
    case True
    then show ?thesis by (intro exI [of _ 0]) simp
  next
    case False
    with Cons.prems have "\<exists>y\<in>set xs. p y" by simp
    from Cons.IH [OF this] obtain k where "findIndex p xs = int k" "k < length xs" "p (xs ! k)"
      by blast
    with False show ?thesis by (intro exI [of _ "Suc k"]) (simp add: Let_def)
  qed
qed

lemma normalizeCorrectAnswer_nat:
  "\<exists>ca<4. normalizeCorrectAnswer q = of_nat ca"
proof -
  have zero: "\<exists>ca<4. (0::rat) = of_nat ca" by (intro exI [of _ 0]) simp
  show ?thesis
  proof (cases "getProp q ''correctAnswer''")
    case (JNum r)
    show ?thesis
    proof (cases "isInteger r \<and> 0 \<le> r \<and> r \<le> 3")
      case True
      then have "of_int \<lfloor>r\<rfloor> = r" unfolding isInteger_def by blast
      then have r: "r = of_int \<lfloor>r\<rfloor>" by (rule sym)
      from True have "0 \<le> \<lfloor>r\<rfloor>" "\<lfloor>r\<rfloor> \<le> 3" by (simp_all add: floor_le_iff le_floor_iff)
      then have "nat \<lfloor>r\<rfloor> < 4" "of_nat (nat \<lfloor>r\<rfloor>) = (of_int \<lfloor>r\<rfloor> :: rat)"
        by (linarith, simp)
      with r True JNum show ?thesis
        by (intro exI [of _ "nat \<lfloor>r\<rfloor>"]) (simp add: normalizeCorrectAnswer_def)
    next
      case False
      with JNum zero show ?thesis by (auto simp: normalizeCorrectAnswer_def)
    qed
  qed (use zero in \<open>simp_all add: normalizeCorrectAnswer_def\<close>)
qed

lemma length_normalizeOptions: "length (normalizeOptions q) = 4"
  by (simp add: normalizeOptions_def placeholders_def split: jsval.splits)

lemma normalizeQuestion_obj:
  "\<exists>idv qv ca ev. ca < 4 \<and> normalizeCorrectAnswer q = of_nat ca \<and>
     normalizeQuestion i q = question_obj idv qv (normalizeOptions q) ca ev"
proof -
  from normalizeCorrectAnswer_nat [of q] obtain ca where
    ca: "ca < 4" "normalizeCorrectAnswer q = of_nat ca" by blast
  have "normalizeQuestion i q =
      question_obj (or_else (getProp q ''id'') (JStr (''q'' @ show_nat (i + 1))))
        (or_else (getProp q ''question'') (JStr (''Question '' @ show_nat (i + 1))))
        (normalizeOptions q) ca (or_else (getProp q ''explanation'') (JStr []))"
    unfolding normalizeQuestion_def question_obj_def ca(2) ..
  with ca show ?thesis by blast
qed

lemma length_indexed: "length (indexed xs) = length xs"
  by (simp add: indexed_def)

lemma indexed_nth: "i < length xs \<Longrightarrow> indexed xs ! i = (i, xs ! i)"
  by (simp add: indexed_def nth_enumerate_eq)

lemma nth_flags:
  "i < length opts \<Longrightarrow>
   map (\<lambda>(idx, opt). (opt, f idx)) (indexed opts) ! i = (opts ! i, f i)"
  by (simp add: indexed_def nth_enumerate_eq)

lemma set_flags:
  "set (map (\<lambda>(idx, opt). (opt, f idx)) (indexed opts)) = {(opts ! i, f i) | i. i < length opts}"
proof -
  have "map (\<lambda>(idx, opt). (opt, f idx)) (indexed opts) =
      map (\<lambda>i. (opts ! i, f i)) [0..<length opts]"
    by (rule nth_equalityI) (simp_all add: length_indexed indexed_nth)
  then show ?thesis by auto
qed

lemma map_fst_flags: "map fst (map (\<lambda>(idx, opt). (opt, f idx)) (indexed opts)) = opts"
  by (rule nth_equalityI) (simp_all add: indexed_def nth_enumerate_eq)

lemma shuffle_flags:
  fixes c :: nat and opts :: "'a list"
  assumes rnd: "unit_interval rnd" and ca: "ca < length opts"
  defines "flags \<equiv> map (\<lambda>(idx, opt). (opt, ca = idx)) (indexed opts)"
  defines "sh \<equiv> fst (shuffleArray rnd c flags)"
  shows "\<exists>k. findIndex snd sh = int k \<and> k < length opts \<and> map fst sh ! k = opts ! ca"
    and "mset (map fst sh) = mset opts"
    and "length (map fst sh) = length opts"
proof -
  have len: "length flags = length opts" by (simp add: flags_def length_indexed)
  have ms: "mset sh = mset flags" unfolding sh_def by (rule shuffleArray_props(1) [OF rnd])
  then have st: "set sh = set flags" by (rule mset_eq_setD)
  have lsh: "length sh = length opts"
    unfolding sh_def by (simp add: shuffleArray_props(2) [OF rnd] len)
  have "flags ! ca = (opts ! ca, True)" unfolding flags_def using ca by (simp add: nth_flags)
  moreover have "flags ! ca \<in> set flags" using ca len by simp
  ultimately have "(opts ! ca, True) \<in> set sh" using st by simp
  then have "\<exists>x\<in>set sh. snd x" by (rule bexI [rotated]) simp
  from findIndex_found [OF this] obtain k where
    k: "findIndex snd sh = int k" "k < length sh" "snd (sh ! k)" by blast
  from k(2) have "sh ! k \<in> set sh" by simp
  then have "sh ! k \<in> {(opts ! i, ca = i) | i. i < length opts}"
    unfolding st flags_def set_flags .
  then obtain i where "i < length opts" "sh ! k = (opts ! i, ca = i)" by blast
  with k(3) have "fst (sh ! k) = opts ! ca" by simp
  with k(2) have "map fst sh ! k = opts ! ca" by simp
  with k(1,2) lsh show "\<exists>k. findIndex snd sh = int k \<and> k < length opts \<and> map fst sh ! k = opts ! ca"
    by (intro exI [of _ k]) simp
  have "map fst flags = opts" unfolding flags_def by (rule map_fst_flags)
  moreover have "mset (map fst sh) = mset (map fst flags)" by (simp add: ms)
  ultimately show "mset (map fst sh) = mset opts" by (simp only:)
  show "length (map fst sh) = length opts" using lsh by simp
qed

lemma shuffleQuestionOptions_obj:
  assumes rnd: "unit_interval rnd" and len: "length opts = 4" and ca: "ca < 4"
  shows "\<exists>q'. shuffleQuestionOptions rnd c (question_obj idv qv opts ca ev) = Inr (q', c + 3) \<and>
     reshuffled (question_obj idv qv opts ca ev) q'"
proof -
  let ?flags = "map (\<lambda>(idx, opt). (opt, ca = idx)) (indexed opts)"
  let ?sh = "fst (shuffleArray rnd c ?flags)"
  from ca len have ca': "ca < length opts" by simp
  from shuffle_flags [OF rnd ca', of c] len obtain k where
    k: "findIndex snd ?sh = int k" "k < 4" "map fst ?sh ! k = opts ! ca"
    and ms: "mset (map fst ?sh) = mset opts" and l: "length (map fst ?sh) = 4"
    by auto
  have sn: "snd (shuffleArray rnd c ?flags) = c + 3"
    using shuffleArray_props(3) [OF rnd, of c ?flags] len by (simp add: indexed_def)
  have eq: "shuffleQuestionOptions rnd c (question_obj idv qv opts ca ev) =
      Inr (question_obj idv qv (map fst ?sh) k ev, c + 3)"
    using len k(1) sn
    by (simp add: shuffleQuestionOptions_def question_obj_def or_else_def spread_def
        case_prod_unfold)
  have "reshuffled (question_obj idv qv opts ca ev) (question_obj idv qv (map fst ?sh) k ev)"
    unfolding reshuffled_def using len ca l k(2,3) ms by blast
  with eq show ?thesis by blast
qed

lemma shuffleQuestionOptions_returns:
  assumes len: "length opts = 4"
  shows "\<exists>q'. shuffleQuestionOptions rnd c (question_obj idv qv opts ca ev) = Inr (q', c + 3)"
proof -
  let ?flags = "map (\<lambda>(idx, opt). (opt, ca = idx)) (indexed opts)"
  have sn: "snd (shuffleArray rnd c ?flags) = c + 3"
    using len by (simp add: shuffleArray_def snd_shuffleLoop length_indexed)
  show ?thesis using len sn
    by (simp add: shuffleQuestionOptions_def question_obj_def or_else_def spread_def
        case_prod_unfold Let_def)
qed

lemma shuffleAll_lift:
  assumes "\<And>q c. q \<in> set qs \<Longrightarrow> \<exists>q'. shuffleQuestionOptions rnd c q = Inr (q', c + 3) \<and> R q q'"
  shows "\<exists>qs'. shuffleAll rnd c qs = Inr (qs', c + 3 * length qs) \<and> list_all2 R qs qs'"
  using assms
proof (induction qs arbitrary: c)
  case Nil
  then show ?case by simp
next
  case (Cons q qs)
  from Cons.prems [of q c] obtain q' where
    q': "shuffleQuestionOptions rnd c q = Inr (q', c + 3)" "R q q'" by auto
  have "\<exists>qs'. shuffleAll rnd (c + 3) qs = Inr (qs', c + 3 + 3 * length qs) \<and> list_all2 R qs qs'"
    by (rule Cons.IH) (simp add: Cons.prems)
  then obtain qs' where
    qs': "shuffleAll rnd (c + 3) qs = Inr (qs', c + 3 + 3 * length qs)" "list_all2 R qs qs'"
    by blast
  show ?case by (intro exI [of _ "q' # qs'"]) (simp add: q' qs')
qed

lemma normalized_in_set:
  assumes "p \<in> set (map (\<lambda>(i, q). normalizeQuestion i q) (indexed qs))"
  shows "\<exists>i q. p = normalizeQuestion i q"
  using assms by auto

lemma shuffleAll_normalized_returns:
  "\<exists>qs'. shuffleAll rnd c (map (\<lambda>(i, q). normalizeQuestion i q) (indexed qs)) =
      Inr (qs', c + 3 * length qs) \<and> length qs' = length qs"
proof -
  let ?ps = "map (\<lambda>(i, q). normalizeQuestion i q) (indexed qs)"
  have "\<exists>q'. shuffleQuestionOptions rnd c p = Inr (q', c + 3) \<and> True" if "p \<in> set ?ps" for p c
  proof -
    from normalized_in_set [OF that] obtain i q where "p = normalizeQuestion i q" by blast
    with normalizeQuestion_obj [of q i] obtain idv qv ca ev where
      "p = question_obj idv qv (normalizeOptions q) ca ev" by auto
    with shuffleQuestionOptions_returns [OF length_normalizeOptions] show ?thesis by simp
  qed
  from shuffleAll_lift [of ?ps rnd "\<lambda>_ _. True" c, OF this]
  obtain qs' where "shuffleAll rnd c ?ps = Inr (qs', c + 3 * length ?ps)" "list_all2 (\<lambda>_ _. True) ?ps qs'"
    by blast
  then show ?thesis by (auto simp: length_indexed dest: list_all2_lengthD)
qed

lemma shuffleAll_normalized_reshuffled:
  assumes rnd: "unit_interval rnd"
  shows "\<exists>qs'. shuffleAll rnd c (map (\<lambda>(i, q). normalizeQuestion i q) (indexed qs)) =
      Inr (qs', c + 3 * length qs) \<and>
      list_all2 reshuffled (map (\<lambda>(i, q). normalizeQuestion i q) (indexed qs)) qs'"
proof -
  let ?ps = "map (\<lambda>(i, q). normalizeQuestion i q) (indexed qs)"
  have "\<exists>q'. shuffleQuestionOptions rnd c p = Inr (q', c + 3) \<and> reshuffled p q'"
    if "p \<in> set ?ps" for p c
  proof -
    from normalized_in_set [OF that] obtain i q where "p = normalizeQuestion i q" by blast
    with normalizeQuestion_obj [of q i] obtain idv qv ca ev where
      "p = question_obj idv qv (normalizeOptions q) ca ev" "ca < 4" by auto
    with shuffleQuestionOptions_obj [OF rnd length_normalizeOptions] show ?thesis by simp
  qed
  from shuffleAll_lift [of ?ps rnd reshuffled c, OF this]
  show ?thesis by (simp add: length_indexed)
qed

lemma getProp_array_cases:
  assumes "getProp v k = JArr qs ps"
  obtains kv where "v = JObj kv" | xs fps where "v = JArr xs fps"
  using assms by (cases v) simp_all

lemma finalTest_not_index: "''finalTest'' \<notin> range show_nat"
  by (rule name_not_index) simp

lemma or_else_truthy: "truthy a \<Longrightarrow> or_else a b = a"
  by (simp add: or_else_def)

lemma normalizeHead_finalTest:
  "getProp (JObj (normalizeHead parsed)) ''finalTest'' = getProp parsed ''finalTest''"
  by (simp add: normalizeHead_def Let_def getProp_setProp getProp_spread [OF finalTest_not_index]
      del: getProp.simps)

lemma normalizeCourseJSON_questions:
  assumes ft: "getProp (getProp parsed ''finalTest'') ''questions'' = JArr qs ps"
    and sh: "shuffleAll rnd c (map (\<lambda>(i, q). normalizeQuestion i q) (indexed qs)) = Inr (qs', c')"
  shows "\<exists>out. normalizeCourseJSON rnd c parsed = Inr (out, c') \<and>
     getProp (getProp out ''finalTest'') ''questions'' = JArr qs' []"
proof -
  have nq: "normalizeQuestions rnd c (getProp parsed ''finalTest'') = Inr (qs', c')"
    using ft sh by (simp add: normalizeQuestions_def)
  from ft show ?thesis
  proof (cases rule: getProp_array_cases)
    case (1 kv)
    have "or_else (getProp parsed ''finalTest'') (JObj []) = JObj kv"
      using 1 by (simp add: or_else_truthy)
    then have "normalizeCourseJSON rnd c parsed =
        Inr (JObj (setProp ''finalTest'' (JObj (setProp ''questions'' (JArr qs' []) kv))
               (normalizeHead parsed)), c')"
      unfolding normalizeCourseJSON_def Let_def normalizeHead_finalTest using nq 1 by simp
    then show ?thesis by (simp add: getProp_setProp del: getProp.simps)
  next
    case (2 xs fps)
    have "or_else (getProp parsed ''finalTest'') (JObj []) = JArr xs fps"
      using 2 by (simp add: or_else_truthy)
    then have "normalizeCourseJSON rnd c parsed =
        Inr (JObj (setProp ''finalTest'' (JArr xs (setProp ''questions'' (JArr qs' []) fps))
               (normalizeHead parsed)), c')"
      unfolding normalizeCourseJSON_def Let_def normalizeHead_finalTest using nq 2 by simp
    then show ?thesis by (simp add: getProp_setProp getProp_setProp_arr del: getProp.simps)
  qed
qed

lemma reshuffled_normalizeQuestion:
  assumes "reshuffled (normalizeQuestion i q) q'"
  shows "\<exists>opts' k. getProp q' ''options'' = JArr opts' [] \<and> length opts' = 4 \<and>
     mset opts' = mset (normalizeOptions q) \<and>
     getProp q' ''correctAnswer'' = JNum (of_nat k) \<and> k < 4 \<and>
     opts' ! k = normalizeOptions q ! nat \<lfloor>normalizeCorrectAnswer q\<rfloor>"
proof -
  from assms obtain idv qv opts ca ev opts' k where
    p: "normalizeQuestion i q = question_obj idv qv opts ca ev"
    and q': "q' = question_obj idv qv opts' k ev"
    and r: "length opts' = 4" "k < 4" "mset opts' = mset opts" "opts' ! k = opts ! ca"
    unfolding reshuffled_def by blast
  from p have "opts = normalizeOptions q" "normalizeCorrectAnswer q = of_nat ca"
    by (simp_all add: normalizeQuestion_def question_obj_def)
  moreover from q' have "getProp q' ''options'' = JArr opts' []"
    "getProp q' ''correctAnswer'' = JNum (of_nat k)"
    by (simp_all add: question_obj_def)
  ultimately show ?thesis using r by simp
qed

lemma normalized_question_at:
  assumes rnd: "unit_interval rnd"
    and ft: "getProp (getProp parsed ''finalTest'') ''questions'' = JArr qs ps"
    and i: "i < length qs"
  shows "\<exists>out c' qs'. normalizeCourseJSON rnd c parsed = Inr (out, c') \<and>
     getProp (getProp out ''finalTest'') ''questions'' = JArr qs' [] \<and>
     reshuffled (normalizeQuestion i (qs ! i)) (qs' ! i)"
proof -
  let ?ps = "map (\<lambda>(i, q). normalizeQuestion i q) (indexed qs)"
  from shuffleAll_normalized_reshuffled [OF rnd, of c qs] obtain qs' where
    sh: "shuffleAll rnd c ?ps = Inr (qs', c + 3 * length qs)"
    and all: "list_all2 reshuffled ?ps qs'" by blast
  have "?ps ! i = normalizeQuestion i (qs ! i)"
    using i by (simp add: length_indexed indexed_nth)
  moreover have "i < length ?ps" using i by (simp add: length_indexed)
  ultimately have "reshuffled (normalizeQuestion i (qs ! i)) (qs' ! i)"
    using list_all2_nthD [OF all, of i] by simp
  with normalizeCourseJSON_questions [OF ft sh] show ?thesis by blast
qed

lemma or_else_idem: "or_else (or_else a d) d = or_else a d"
  by (simp add: or_else_def)

lemma truthy_or_else: "truthy d \<Longrightarrow> truthy (or_else a d)"
  by (simp add: or_else_def)

lemma map_indexed_idem:
  assumes "\<And>i x. f i (f i x) = f i x"
  shows "map (\<lambda>(i, x). f i x) (indexed (map (\<lambda>(i, x). f i x) (indexed xs))) =
     map (\<lambda>(i, x). f i x) (indexed xs)"
  by (rule nth_equalityI) (simp_all add: length_indexed indexed_nth assms)

lemma filter_take_filter: "filter P (take n (filter P xs)) = take n (filter P xs)"
  by (rule filter_True) (auto dest: in_set_takeD)

lemma normalizeLesson_idem: "normalizeLesson ui li (normalizeLesson ui li l) = normalizeLesson ui li l"
  by (cases "getProp l ''content''"; cases "getProp l ''keyPoints''")
    (simp_all add: normalizeLesson_def or_else_idem filter_take_filter)

lemma indexed_Nil: "indexed [] = []"
  by (simp add: indexed_def)

lemma normalizeUnit_idem: "normalizeUnit ui (normalizeUnit ui u) = normalizeUnit ui u"
  by (cases "getProp u ''lessons''")
    (simp_all add: normalizeUnit_def or_else_idem map_indexed_idem normalizeLesson_idem
      indexed_Nil)

lemma normalizeHead_fixed:
  assumes "map_of L ''courseTitle'' = Some T" "truthy T"
    and "map_of L ''courseDescription'' = Some D" "truthy D"
    and "map_of L ''units'' = Some (JArr us [])"
    and "map (\<lambda>(ui, u). normalizeUnit ui u) (indexed us) = us"
  shows "normalizeHead (JObj L) = L"
  using assms by (simp add: normalizeHead_def spread_def Let_def or_else_truthy setProp_same)

lemma normalizeHead_shape:
  "\<exists>T D us. map_of (normalizeHead parsed) ''courseTitle'' = Some T \<and> truthy T \<and>
     map_of (normalizeHead parsed) ''courseDescription'' = Some D \<and> truthy D \<and>
     map_of (normalizeHead parsed) ''units'' = Some (JArr us []) \<and>
     map (\<lambda>(ui, u). normalizeUnit ui u) (indexed us) = us"
proof -
  define out0 where "out0 = spread parsed"
  define T where "T = or_else (getProp (JObj out0) ''courseTitle'') (JStr ''Untitled Course'')"
  define out1 where "out1 = setProp ''courseTitle'' T out0"
  define D where "D = or_else (getProp (JObj out1) ''courseDescription'')
     (JStr ''AI-generated course from the uploaded syllabus.'')"
  define out2 where "out2 = setProp ''courseDescription'' D out1"
  define units where "units = (case getProp (JObj out2) ''units'' of JArr us ps \<Rightarrow> us | _ \<Rightarrow> [])"
  define us where "us = map (\<lambda>(ui, u). normalizeUnit ui u) (indexed units)"
  have H: "normalizeHead parsed = setProp ''units'' (JArr us []) out2"
    unfolding normalizeHead_def Let_def us_def units_def out2_def D_def out1_def T_def out0_def ..
  have "truthy T" unfolding T_def by (rule truthy_or_else) simp
  moreover have "truthy D" unfolding D_def by (rule truthy_or_else) simp
  moreover have "map_of (normalizeHead parsed) ''courseTitle'' = Some T"
    unfolding H out2_def out1_def by (simp add: map_of_setProp)
  moreover have "map_of (normalizeHead parsed) ''courseDescription'' = Some D"
    unfolding H out2_def by (simp add: map_of_setProp)
  moreover have "map_of (normalizeHead parsed) ''units'' = Some (JArr us [])"
    unfolding H by (simp add: map_of_setProp)
  moreover have "map (\<lambda>(ui, u). normalizeUnit ui u) (indexed us) = us"
    unfolding us_def by (rule map_indexed_idem) (rule normalizeUnit_idem)
  ultimately show ?thesis by blast
qed

lemma normalizeHead_after_finalTest:
  "normalizeHead (JObj (setProp ''finalTest'' ft (normalizeHead parsed))) =
     setProp ''finalTest'' ft (normalizeHead parsed)"
proof -
  from normalizeHead_shape [of parsed] obtain T D us where
    s: "map_of (normalizeHead parsed) ''courseTitle'' = Some T" "truthy T"
       "map_of (normalizeHead parsed) ''courseDescription'' = Some D" "truthy D"
       "map_of (normalizeHead parsed) ''units'' = Some (JArr us [])"
       "map (\<lambda>(ui, u). normalizeUnit ui u) (indexed us) = us" by blast
  show ?thesis
    by (rule normalizeHead_fixed [of _ T D us]) (simp_all add: map_of_setProp s)
qed

lemma filter_setProp: "filter (\<lambda>p. fst p \<noteq> k) (setProp k v ps) = filter (\<lambda>p. fst p \<noteq> k) ps"
  by (induction ps) auto

lemma without_setProp_obj: "without k (JObj (setProp k v ps)) = without k (JObj ps)"
  by (simp add: without_def filter_setProp)

lemma without_setProp_arr: "without k (JArr xs (setProp k v ps)) = without k (JArr xs ps)"
  by (simp add: without_def filter_setProp)

lemma reshuffled_view: "reshuffled p q \<Longrightarrow> questionView q = questionView p"
proof -
  assume "reshuffled p q"
  then obtain idv qv opts ca ev opts' k where
    p: "p = question_obj idv qv opts ca ev" and q: "q = question_obj idv qv opts' k ev"
    and r: "length opts = 4" "ca < 4" "length opts' = 4" "k < 4" "mset opts' = mset opts"
      "opts' ! k = opts ! ca"
    unfolding reshuffled_def by blast
  have w: "without ''options'' (without ''correctAnswer'' (question_obj idv qv os n ev)) =
      JObj [(''id'', idv), (''question'', qv), (''explanation'', ev)]" for os n
    by (simp add: without_def question_obj_def)
  have o: "optionsOf (question_obj idv qv os n ev) = os" for os n
    by (simp add: optionsOf_def question_obj_def)
  have g: "getProp (question_obj idv qv os n ev) ''correctAnswer'' = JNum (of_nat n)" for os n
    by (simp add: question_obj_def)
  have c: "correctOption (question_obj idv qv os n ev) = os ! n" if "n < length os" for os n
    unfolding correctOption_def g o using that by (simp add: isInteger_def)
  show ?thesis unfolding p q questionView_def w o using r by (simp add: c)
qed

lemma normalizeCorrectAnswer_of_nat:
  assumes "getProp q ''correctAnswer'' = JNum (of_nat k)" "k < 4"
  shows "normalizeCorrectAnswer q = of_nat k"
proof -
  have "isInteger (of_nat k)" by (simp add: isInteger_def)
  moreover have "(of_nat k :: rat) \<le> 3" using assms(2) by simp
  ultimately show ?thesis using assms(1) by (simp add: normalizeCorrectAnswer_def)
qed

lemma reshuffled_fixed:
  assumes "reshuffled (normalizeQuestion j q0) q"
  shows "normalizeQuestion i q = q"
proof -
  from assms obtain idv qv opts ca ev opts' k where
    p: "normalizeQuestion j q0 = question_obj idv qv opts ca ev"
    and q: "q = question_obj idv qv opts' k ev"
    and r: "length opts' = 4" "k < 4"
    unfolding reshuffled_def by blast
  from p have idv: "idv = or_else (getProp q0 ''id'') (JStr (''q'' @ show_nat (j + 1)))"
    and qv: "qv = or_else (getProp q0 ''question'') (JStr (''Question '' @ show_nat (j + 1)))"
    and ev: "ev = or_else (getProp q0 ''explanation'') (JStr [])"
    by (simp_all add: normalizeQuestion_def question_obj_def)
  have "truthy idv" unfolding idv by (rule truthy_or_else) simp
  then have 1: "or_else (getProp q ''id'') d = idv" for d
    by (simp add: q question_obj_def or_else_truthy)
  have "truthy qv" unfolding qv by (rule truthy_or_else) simp
  then have 2: "or_else (getProp q ''question'') d = qv" for d
    by (simp add: q question_obj_def or_else_truthy)
  have 3: "or_else (getProp q ''explanation'') (JStr []) = ev"
    by (simp add: q question_obj_def ev or_else_idem)
  have 4: "normalizeOptions q = opts'"
    using r(1) by (simp add: q question_obj_def normalizeOptions_def)
  have "getProp q ''correctAnswer'' = JNum (of_nat k)" by (simp add: q question_obj_def)
  then have 5: "normalizeCorrectAnswer q = of_nat k"
    using r(2) by (rule normalizeCorrectAnswer_of_nat)
  show ?thesis unfolding normalizeQuestion_def 1 2 3 4 5 by (simp add: q question_obj_def)
qed

lemma normalizeQuestions_result:
  assumes "unit_interval rnd"
  shows "\<exists>qs0 qs1 c1. normalizeQuestions rnd c ft = Inr (qs1, c1) \<and>
     list_all2 reshuffled (map (\<lambda>(i, q). normalizeQuestion i q) (indexed qs0)) qs1"
proof (cases "\<exists>qs0 ps. getProp ft ''questions'' = JArr qs0 ps")
  case True
  then obtain qs0 ps where g: "getProp ft ''questions'' = JArr qs0 ps" by blast
  from shuffleAll_normalized_reshuffled [OF assms, of c qs0] g show ?thesis
    by (auto simp: normalizeQuestions_def)
next
  case False
  then have "normalizeQuestions rnd c ft = Inr ([], c)"
    by (cases "getProp ft ''questions''") (simp_all add: normalizeQuestions_def)
  then show ?thesis by (intro exI [of _ "[]"]) (simp add: indexed_Nil)
qed

lemma reshuffle_again:
  assumes rnd: "unit_interval rnd"
    and all: "list_all2 reshuffled (map (\<lambda>(i, q). normalizeQuestion i q) (indexed qs0)) qs1"
  shows "\<exists>qs2 c2. normalizeQuestions rnd c (JObj (setProp ''questions'' (JArr qs1 []) fkv)) =
        Inr (qs2, c2) \<and> map questionView qs2 = map questionView qs1"
    and "\<exists>qs2 c2. normalizeQuestions rnd c (JArr xs (setProp ''questions'' (JArr qs1 []) fps)) =
        Inr (qs2, c2) \<and> map questionView qs2 = map questionView qs1"
proof -
  let ?ps = "map (\<lambda>(i, q). normalizeQuestion i q) (indexed qs0)"
  have len: "length qs1 = length qs0"
    using list_all2_lengthD [OF all] by (simp add: length_indexed)
  have at: "reshuffled (normalizeQuestion i (qs0 ! i)) (qs1 ! i)" if "i < length qs0" for i
    using list_all2_nthD [OF all, of i] that by (simp add: length_indexed indexed_nth)
  have fixed: "map (\<lambda>(i, q). normalizeQuestion i q) (indexed qs1) = qs1"
    by (rule nth_equalityI)
      (simp_all add: length_indexed indexed_nth len reshuffled_fixed [OF at])
  have step: "\<exists>q'. shuffleQuestionOptions rnd c q = Inr (q', c + 3) \<and> reshuffled q q'"
    if "q \<in> set qs1" for q c
  proof -
    from that obtain i where "i < length qs1" "q = qs1 ! i" by (auto simp: in_set_conv_nth)
    with at [of i] len obtain idv qv opts' k ev where
      "q = question_obj idv qv opts' k ev" "length opts' = 4" "k < 4"
      unfolding reshuffled_def by auto
    with shuffleQuestionOptions_obj [OF rnd, of opts' k c idv qv ev] show ?thesis by simp
  qed
  from shuffleAll_lift [of qs1 rnd reshuffled c, OF step] obtain qs2 where
    sh: "shuffleAll rnd c qs1 = Inr (qs2, c + 3 * length qs1)"
    and re: "list_all2 reshuffled qs1 qs2" by blast
  have "list_all2 (\<lambda>p q. questionView q = questionView p) qs1 qs2"
    using re by (rule list_all2_mono) (rule reshuffled_view)
  then have v: "map questionView qs2 = map questionView qs1"
    by (induction rule: list_all2_induct) simp_all
  show "\<exists>qs2 c2. normalizeQuestions rnd c (JObj (setProp ''questions'' (JArr qs1 []) fkv)) =
        Inr (qs2, c2) \<and> map questionView qs2 = map questionView qs1"
    using sh v by (simp add: normalizeQuestions_def map_of_setProp fixed)
  show "\<exists>qs2 c2. normalizeQuestions rnd c (JArr xs (setProp ''questions'' (JArr qs1 []) fps)) =
        Inr (qs2, c2) \<and> map questionView qs2 = map questionView qs1"
    using sh v by (simp add: normalizeQuestions_def map_of_setProp fixed)
qed

lemma normalizeCourseJSON_cases:
  assumes "normalizeCourseJSON rnd c x = Inr (y, c1)"
  obtains (obj) fkv qs1 where
      "or_else (getProp x ''finalTest'') (JObj []) = JObj fkv"
      "normalizeQuestions rnd c (JObj fkv) = Inr (qs1, c1)"
      "y = JObj (setProp ''finalTest'' (JObj (setProp ''questions'' (JArr qs1 []) fkv))
             (normalizeHead x))"
  | (arr) xs fps qs1 where
      "or_else (getProp x ''finalTest'') (JObj []) = JArr xs fps"
      "normalizeQuestions rnd c (JArr xs fps) = Inr (qs1, c1)"
      "y = JObj (setProp ''finalTest'' (JArr xs (setProp ''questions'' (JArr qs1 []) fps))
             (normalizeHead x))"
proof -
  let ?ft = "or_else (getProp x ''finalTest'') (JObj [])"
  from assms have run: "(case normalizeQuestions rnd c ?ft of
       Inl e \<Rightarrow> Inl e
     | Inr (qs, c') \<Rightarrow>
         (case ?ft of
            JObj fkv \<Rightarrow>
              Inr (JObj (setProp ''finalTest''
                           (JObj (setProp ''questions'' (JArr qs []) fkv)) (normalizeHead x)), c')
          | JArr xs fps \<Rightarrow>
              Inr (JObj (setProp ''finalTest''
                           (JArr xs (setProp ''questions'' (JArr qs []) fps)) (normalizeHead x)), c')
          | _ \<Rightarrow> Inl TypeError)) = Inr (y, c1)"
    unfolding normalizeCourseJSON_def Let_def normalizeHead_finalTest .
  then obtain qs1 c1' where nq: "normalizeQuestions rnd c ?ft = Inr (qs1, c1')"
    by (cases "normalizeQuestions rnd c ?ft") auto
  show ?thesis
  proof (cases ?ft)
    case (JObj fkv)
    with run nq obj [of fkv qs1] show ?thesis by simp
  next
    case (JArr xs fps)
    with run nq arr [of xs fps qs1] show ?thesis by simp
  qed (use run nq in simp_all)
qed

lemma normalizeOptions_cases:
  "(\<forall>os ops. getProp q ''options'' = JArr os ops \<and> 4 \<le> length os \<longrightarrow>
       normalizeOptions q = take 4 os) \<and>
   ((\<forall>os ops. getProp q ''options'' = JArr os ops \<longrightarrow> length os < 4) \<longrightarrow>
       normalizeOptions q = placeholders)"
  by (cases "getProp q ''options''") (simp_all add: normalizeOptions_def)

lemma normalizeCorrectAnswer_cases:
  "normalizeCorrectAnswer q \<in> {0, 1, 2, 3} \<and>
   (\<forall>r. getProp q ''correctAnswer'' = JNum r \<and> r \<in> {0, 1, 2, 3} \<longrightarrow>
       normalizeCorrectAnswer q = r) \<and>
   ((\<forall>r. getProp q ''correctAnswer'' = JNum r \<longrightarrow> r \<notin> {0, 1, 2, 3}) \<longrightarrow>
       normalizeCorrectAnswer q = 0)"
proof -
  from normalizeCorrectAnswer_nat [of q] obtain ca where
    ca: "ca < 4" "normalizeCorrectAnswer q = of_nat ca" by blast
  from ca(1) have "ca = 0 \<or> ca = 1 \<or> ca = 2 \<or> ca = 3" by arith
  with ca(2) have range: "normalizeCorrectAnswer q \<in> {0, 1, 2, 3}" by auto
  have valid: "normalizeCorrectAnswer q = r"
    if "getProp q ''correctAnswer'' = JNum r" "r \<in> {0, 1, 2, 3}" for r
    using that by (auto simp: normalizeCorrectAnswer_def isInteger_def)
  have other: "normalizeCorrectAnswer q = 0"
    if "\<forall>r. getProp q ''correctAnswer'' = JNum r \<longrightarrow> r \<notin> {0, 1, 2, 3}"
  proof (cases "getProp q ''correctAnswer''")
    case (JNum r)
    with that have "r \<notin> {0, 1, 2, 3}" by simp
    moreover from JNum have "normalizeCorrectAnswer q = r \<or> normalizeCorrectAnswer q = 0"
      by (simp add: normalizeCorrectAnswer_def)
    ultimately show ?thesis using range by auto
  qed (simp_all add: normalizeCorrectAnswer_def)
  from range valid other show ?thesis by blast
qed

section \<open>The normalizer: claims\<close>

lemma unit_interval_zero_rng: "unit_interval zero_rng"
  by (simp add: unit_interval_def zero_rng_def)

lemma count_list_mset: "mset xs = mset ys \<Longrightarrow> count_list xs x = count_list ys x"
  by (metis count_mset)

lemmas normalize_eval =
  normalizeCourseJSON_def normalizeHead_def normalizeQuestions_def normalizeQuestion_def
  normalizeOptions_def normalizeCorrectAnswer_def normalizeUnit_def normalizeLesson_def
  shuffleQuestionOptions_def shuffleArray_def spread_def or_else_def indexed_def
  isInteger_def placeholders_def show_nat.simps digit_def Let_def

text \<open>
  Claim C1 says that normalizeCourseJSON never throws and always returns an object whose
  \<^verbatim>\<open>finalTest.questions\<close> is an array. The code tests \<^verbatim>\<open>out.finalTest\<close> for truthiness only
  (\<^verbatim>\<open>out.finalTest || {}\<close>), where \<^verbatim>\<open>out.units\<close> is tested with \<^verbatim>\<open>Array.isArray\<close>: on the parsed
  JSON \<^verbatim>\<open>{"finalTest": 5}\<close> the assignment \<^verbatim>\<open>out.finalTest.questions = []\<close> is an assignment to
  a property of a number, and the call throws a TypeError, whatever the random draws.
\<close>

theorem normalizeCourseJSON_throws_on_primitive_finalTest:
  "normalizeCourseJSON rnd c (JObj [(''finalTest'', JNum 5)]) = Inl TypeError"
  by (simp add: normalizeCourseJSON_def normalizeHead_def spread_def or_else_def
      normalizeQuestions_def indexed_def)

text \<open>
  Claim C10: normalizeCourseJSON preserves the number of quiz questions. For every input
  whose \<^verbatim>\<open>finalTest.questions\<close> is an array of n entries, the call returns, and
  \<^verbatim>\<open>finalTest.questions\<close> of the result is an array of exactly n entries: no cap and no
  target count is applied. This holds for every random source.
\<close>

theorem normalizeCourseJSON_preserves_question_count:
  assumes "getProp (getProp parsed ''finalTest'') ''questions'' = JArr qs ps"
  shows "\<exists>out c' qs'. normalizeCourseJSON rnd c parsed = Inr (out, c') \<and>
     getProp (getProp out ''finalTest'') ''questions'' = JArr qs' [] \<and>
     length qs' = length qs"
proof -
  from shuffleAll_normalized_returns [of rnd c qs] obtain qs' where
    sh: "shuffleAll rnd c (map (\<lambda>(i, q). normalizeQuestion i q) (indexed qs)) =
      Inr (qs', c + 3 * length qs)" and len: "length qs' = length qs" by blast
  from normalizeCourseJSON_questions [OF assms sh] len show ?thesis by blast
qed

theorem normalizeCourseJSON_preserves_question_count_witness:
  "getProp (getProp five_course ''finalTest'') ''questions'' = JArr [five_question] [] \<and>
   (\<exists>out c' qs'. normalizeCourseJSON zero_rng 0 five_course = Inr (out, c') \<and>
      getProp (getProp out ''finalTest'') ''questions'' = JArr qs' [] \<and>
      length qs' = length [five_question])"
proof -
  have h: "getProp (getProp five_course ''finalTest'') ''questions'' = JArr [five_question] []"
    by (simp add: five_course_def)
  show ?thesis
    using h normalizeCourseJSON_preserves_question_count [OF h, of zero_rng 0] by simp
qed

text \<open>
  Claim C3, amended. For every question with at least 4 options before the shuffle, after
  normalizeCourseJSON the question has exactly 4 options, which are the first four source
  options in some order, and \<^verbatim>\<open>options[correctAnswer]\<close> is the text of the pre-shuffle correct
  option (the source option at the validated \<^verbatim>\<open>correctAnswer\<close>). That text occurs exactly once
  among the options when it occurs once among the first four source options; the code removes
  no duplicates, so a repeated text stays repeated.
\<close>

theorem shuffled_question_keeps_correct_option:
  assumes "unit_interval rnd"
    and "getProp (getProp parsed ''finalTest'') ''questions'' = JArr qs ps"
    and "i < length qs"
    and "getProp (qs ! i) ''options'' = JArr os ops"
    and "4 \<le> length os"
  shows "\<exists>out c' qs' opts' k.
     normalizeCourseJSON rnd c parsed = Inr (out, c') \<and>
     getProp (getProp out ''finalTest'') ''questions'' = JArr qs' [] \<and>
     getProp (qs' ! i) ''options'' = JArr opts' [] \<and>
     length opts' = 4 \<and>
     mset opts' = mset (take 4 os) \<and>
     getProp (qs' ! i) ''correctAnswer'' = JNum (of_nat k) \<and> k < 4 \<and>
     opts' ! k = os ! nat \<lfloor>normalizeCorrectAnswer (qs ! i)\<rfloor> \<and>
     (count_list (take 4 os) (os ! nat \<lfloor>normalizeCorrectAnswer (qs ! i)\<rfloor>) = 1 \<longrightarrow>
      count_list opts' (os ! nat \<lfloor>normalizeCorrectAnswer (qs ! i)\<rfloor>) = 1)"
proof -
  have no: "normalizeOptions (qs ! i) = take 4 os"
    using assms(4,5) by (simp add: normalizeOptions_def)
  from normalizeCorrectAnswer_nat [of "qs ! i"] obtain ca where
    ca: "ca < 4" "normalizeCorrectAnswer (qs ! i) = of_nat ca" by blast
  then have nth: "take 4 os ! nat \<lfloor>normalizeCorrectAnswer (qs ! i)\<rfloor> =
      os ! nat \<lfloor>normalizeCorrectAnswer (qs ! i)\<rfloor>" by simp
  from normalized_question_at [OF assms(1-3), of c] obtain out c' qs' where
    run: "normalizeCourseJSON rnd c parsed = Inr (out, c')"
      "getProp (getProp out ''finalTest'') ''questions'' = JArr qs' []"
    and re: "reshuffled (normalizeQuestion i (qs ! i)) (qs' ! i)" by blast
  from reshuffled_normalizeQuestion [OF re] obtain opts' k where
    o: "getProp (qs' ! i) ''options'' = JArr opts' []" "length opts' = 4"
      "mset opts' = mset (take 4 os)"
      "getProp (qs' ! i) ''correctAnswer'' = JNum (of_nat k)" "k < 4"
      "opts' ! k = os ! nat \<lfloor>normalizeCorrectAnswer (qs ! i)\<rfloor>"
    unfolding no nth by blast
  have "count_list opts' x = count_list (take 4 os) x" for x
    using o(3) by (rule count_list_mset)
  with run o show ?thesis by auto
qed

theorem shuffled_question_keeps_correct_option_witness:
  "unit_interval zero_rng \<and>
   getProp (getProp five_course ''finalTest'') ''questions'' = JArr [five_question] [] \<and>
   0 < length [five_question] \<and>
   getProp ([five_question] ! 0) ''options'' = JArr five_options [] \<and>
   4 \<le> length five_options \<and>
   (\<exists>out c' qs' opts' k.
     normalizeCourseJSON zero_rng 0 five_course = Inr (out, c') \<and>
     getProp (getProp out ''finalTest'') ''questions'' = JArr qs' [] \<and>
     getProp (qs' ! 0) ''options'' = JArr opts' [] \<and>
     length opts' = 4 \<and>
     mset opts' = mset (take 4 five_options) \<and>
     getProp (qs' ! 0) ''correctAnswer'' = JNum (of_nat k) \<and> k < 4 \<and>
     opts' ! k = five_options ! nat \<lfloor>normalizeCorrectAnswer ([five_question] ! 0)\<rfloor> \<and>
     (count_list (take 4 five_options)
        (five_options ! nat \<lfloor>normalizeCorrectAnswer ([five_question] ! 0)\<rfloor>) = 1 \<longrightarrow>
      count_list opts'
        (five_options ! nat \<lfloor>normalizeCorrectAnswer ([five_question] ! 0)\<rfloor>) = 1))"
proof -
  have h1: "getProp (getProp five_course ''finalTest'') ''questions'' = JArr [five_question] []"
    by (simp add: five_course_def)
  have h2: "0 < length [five_question]" by simp
  have h3: "getProp ([five_question] ! 0) ''options'' = JArr five_options []"
    by (simp add: five_question_def)
  have h4: "4 \<le> length five_options" by (simp add: five_options_def)
  from shuffled_question_keeps_correct_option [OF unit_interval_zero_rng h1 h2 h3 h4, of 0]
  show ?thesis using unit_interval_zero_rng h1 h2 h3 h4 by blast
qed

text \<open>
  Claim C3 as stated fails where an option text is repeated: the question of \<open>dup_course\<close> has
  the options A, A, B, C with the first one correct; after the call, with every draw 0, its
  options are A, B, C, A and two of them equal the correct text.
\<close>

theorem repeated_option_counterexample:
  "normalizeCourseJSON zero_rng 0 dup_course =
     Inr (JObj
       [(''finalTest'', JObj [(''questions'', JArr
          [JObj [(''id'', JStr ''q1''), (''question'', JStr ''Question 1''),
                 (''options'', JArr [JStr ''A'', JStr ''B'', JStr ''C'', JStr ''A''] []),
                 (''correctAnswer'', JNum 3), (''explanation'', JStr [])]] [])]),
        (''courseTitle'', JStr ''Untitled Course''),
        (''courseDescription'', JStr ''AI-generated course from the uploaded syllabus.''),
        (''units'', JArr [] [])], 3) \<and>
   count_list [JStr ''A'', JStr ''B'', JStr ''C'', JStr ''A''] (JStr ''A'') = 2"
  by (simp add: dup_course_def zero_rng_def normalize_eval)

text \<open>
  Claim C4, amended. Every question that normalizeCourseJSON processes comes out with exactly 4
  options. When the source options are an array of at least 4 entries they are its first four;
  otherwise (fewer than 4 entries, or no array) all source options are dropped and the four
  placeholders \<^verbatim>\<open>Option A\<close> .. \<^verbatim>\<open>Option D\<close> stand in their place; in both cases in shuffled
  order. Before the shuffle \<^verbatim>\<open>correctAnswer\<close> is the source value when that is one of 0, 1, 2,
  3 and else 0; after it, it is the index in 0..3 of the option that stood at that place.
\<close>

theorem normalized_question_options_and_answer:
  assumes "unit_interval rnd"
    and "getProp (getProp parsed ''finalTest'') ''questions'' = JArr qs ps"
    and "i < length qs"
  shows "\<exists>out c' qs' opts' k.
     normalizeCourseJSON rnd c parsed = Inr (out, c') \<and>
     getProp (getProp out ''finalTest'') ''questions'' = JArr qs' [] \<and>
     getProp (qs' ! i) ''options'' = JArr opts' [] \<and>
     length opts' = 4 \<and>
     (\<forall>os ops. getProp (qs ! i) ''options'' = JArr os ops \<and> 4 \<le> length os \<longrightarrow>
        mset opts' = mset (take 4 os)) \<and>
     ((\<forall>os ops. getProp (qs ! i) ''options'' = JArr os ops \<longrightarrow> length os < 4) \<longrightarrow>
        mset opts' = mset placeholders) \<and>
     normalizeCorrectAnswer (qs ! i) \<in> {0, 1, 2, 3} \<and>
     (\<forall>r. getProp (qs ! i) ''correctAnswer'' = JNum r \<and> r \<in> {0, 1, 2, 3} \<longrightarrow>
        normalizeCorrectAnswer (qs ! i) = r) \<and>
     ((\<forall>r. getProp (qs ! i) ''correctAnswer'' = JNum r \<longrightarrow> r \<notin> {0, 1, 2, 3}) \<longrightarrow>
        normalizeCorrectAnswer (qs ! i) = 0) \<and>
     getProp (qs' ! i) ''correctAnswer'' = JNum (of_nat k) \<and> k < 4 \<and>
     opts' ! k = normalizeOptions (qs ! i) ! nat \<lfloor>normalizeCorrectAnswer (qs ! i)\<rfloor>"
proof -
  from normalized_question_at [OF assms, of c] obtain out c' qs' where
    run: "normalizeCourseJSON rnd c parsed = Inr (out, c')"
      "getProp (getProp out ''finalTest'') ''questions'' = JArr qs' []"
    and re: "reshuffled (normalizeQuestion i (qs ! i)) (qs' ! i)" by blast
  from reshuffled_normalizeQuestion [OF re] obtain opts' k where
    o: "getProp (qs' ! i) ''options'' = JArr opts' []" "length opts' = 4"
      "mset opts' = mset (normalizeOptions (qs ! i))"
      "getProp (qs' ! i) ''correctAnswer'' = JNum (of_nat k)" "k < 4"
      "opts' ! k = normalizeOptions (qs ! i) ! nat \<lfloor>normalizeCorrectAnswer (qs ! i)\<rfloor>"
    by blast
  note oc = normalizeOptions_cases [of "qs ! i"]
  have a: "\<forall>os ops. getProp (qs ! i) ''options'' = JArr os ops \<and> 4 \<le> length os \<longrightarrow>
        mset opts' = mset (take 4 os)"
    using oc o(3) by auto
  have b: "(\<forall>os ops. getProp (qs ! i) ''options'' = JArr os ops \<longrightarrow> length os < 4) \<longrightarrow>
        mset opts' = mset placeholders"
    using oc o(3) by auto
  from normalizeCorrectAnswer_cases [of "qs ! i"] have
    c1: "normalizeCorrectAnswer (qs ! i) \<in> {0, 1, 2, 3}"
    and c2: "\<forall>r. getProp (qs ! i) ''correctAnswer'' = JNum r \<and> r \<in> {0, 1, 2, 3} \<longrightarrow>
        normalizeCorrectAnswer (qs ! i) = r"
    and c3: "(\<forall>r. getProp (qs ! i) ''correctAnswer'' = JNum r \<longrightarrow> r \<notin> {0, 1, 2, 3}) \<longrightarrow>
        normalizeCorrectAnswer (qs ! i) = 0"
    by blast+
  show ?thesis
    by (rule exI [of _ out], rule exI [of _ c'], rule exI [of _ qs'], rule exI [of _ opts'],
        rule exI [of _ k]) (intro conjI run o a b c1 c2 c3)
qed

theorem normalized_question_options_and_answer_witness:
  "unit_interval zero_rng \<and>
   getProp (getProp five_course ''finalTest'') ''questions'' = JArr [five_question] [] \<and>
   0 < length [five_question] \<and>
   (\<exists>out c' qs' opts' k.
     normalizeCourseJSON zero_rng 0 five_course = Inr (out, c') \<and>
     getProp (getProp out ''finalTest'') ''questions'' = JArr qs' [] \<and>
     getProp (qs' ! 0) ''options'' = JArr opts' [] \<and>
     length opts' = 4 \<and>
     (\<forall>os ops. getProp ([five_question] ! 0) ''options'' = JArr os ops \<and> 4 \<le> length os \<longrightarrow>
        mset opts' = mset (take 4 os)) \<and>
     ((\<forall>os ops. getProp ([five_question] ! 0) ''options'' = JArr os ops \<longrightarrow> length os < 4) \<longrightarrow>
        mset opts' = mset placeholders) \<and>
     normalizeCorrectAnswer ([five_question] ! 0) \<in> {0, 1, 2, 3} \<and>
     (\<forall>r. getProp ([five_question] ! 0) ''correctAnswer'' = JNum r \<and> r \<in> {0, 1, 2, 3} \<longrightarrow>
        normalizeCorrectAnswer ([five_question] ! 0) = r) \<and>
     ((\<forall>r. getProp ([five_question] ! 0) ''correctAnswer'' = JNum r \<longrightarrow> r \<notin> {0, 1, 2, 3}) \<longrightarrow>
        normalizeCorrectAnswer ([five_question] ! 0) = 0) \<and>
     getProp (qs' ! 0) ''correctAnswer'' = JNum (of_nat k) \<and> k < 4 \<and>
     opts' ! k = normalizeOptions ([five_question] ! 0) !
                   nat \<lfloor>normalizeCorrectAnswer ([five_question] ! 0)\<rfloor>)"
proof -
  have h1: "getProp (getProp five_course ''finalTest'') ''questions'' = JArr [five_question] []"
    by (simp add: five_course_def)
  have h2: "0 < length [five_question]" by simp
  from normalized_question_options_and_answer [OF unit_interval_zero_rng h1 h2, of 0]
  show ?thesis using unit_interval_zero_rng h1 h2 by blast
qed

text \<open>
  Claim C4 as stated fails on a question with fewer than 4 options: the options are not padded
  but replaced. The question of \<open>three_course\<close> has the options x, y, z; after the call its
  options are the four placeholders and x is not among them.
\<close>

theorem placeholders_replace_counterexample:
  "normalizeCourseJSON zero_rng 0 three_course =
     Inr (JObj
       [(''finalTest'', JObj [(''questions'', JArr
          [JObj [(''id'', JStr ''q1''), (''question'', JStr ''Question 1''),
                 (''options'', JArr [JStr ''Option B'', JStr ''Option C'', JStr ''Option D'',
                                     JStr ''Option A''] []),
                 (''correctAnswer'', JNum 0), (''explanation'', JStr [])]] [])]),
        (''courseTitle'', JStr ''Untitled Course''),
        (''courseDescription'', JStr ''AI-generated course from the uploaded syllabus.''),
        (''units'', JArr [] [])], 3) \<and>
   count_list [JStr ''Option B'', JStr ''Option C'', JStr ''Option D'', JStr ''Option A'']
     (JStr ''x'') = 0"
  by (simp add: three_course_def zero_rng_def normalize_eval)

text \<open>
  Claim C2, amended. For every input on which normalizeCourseJSON returns (every valid
  course-shaped JSON value among them), normalizing the result again returns, and the second
  result equals the first in everything except the order of each question's options: each
  question keeps its other fields, its options as a multiset and the option that
  \<^verbatim>\<open>correctAnswer\<close> points at. The shuffle draws anew on every call, so the order itself is
  not kept.
\<close>

theorem normalize_twice_differs_in_option_order_only:
  assumes "unit_interval rnd" and "unit_interval rnd'"
    and "normalizeCourseJSON rnd c x = Inr (y, c1)"
  shows "\<exists>z c2. normalizeCourseJSON rnd' c' y = Inr (z, c2) \<and> courseView z = courseView y"
proof -
  let ?H = "normalizeHead x"
  from assms(3) show ?thesis
  proof (cases rule: normalizeCourseJSON_cases)
    case (obj fkv qs1)
    let ?ft1 = "JObj (setProp ''questions'' (JArr qs1 []) fkv)"
    from normalizeQuestions_result [OF assms(1), of c "JObj fkv"] obj(2) obtain qs0 where
      all: "list_all2 reshuffled (map (\<lambda>(i, q). normalizeQuestion i q) (indexed qs0)) qs1"
      by auto
    from reshuffle_again(1) [OF assms(2) all, of c' fkv] obtain qs2 c2 where
      nq: "normalizeQuestions rnd' c' ?ft1 = Inr (qs2, c2)"
      and v: "map questionView qs2 = map questionView qs1" by blast
    let ?z = "JObj (setProp ''finalTest'' (JObj (setProp ''questions'' (JArr qs2 []) 
                 (setProp ''questions'' (JArr qs1 []) fkv))) (setProp ''finalTest'' ?ft1 ?H))"
    have run: "normalizeCourseJSON rnd' c' y = Inr (?z, c2)"
      unfolding normalizeCourseJSON_def Let_def obj(3) normalizeHead_after_finalTest
      using nq by (simp add: map_of_setProp or_else_truthy)
    have "courseView ?z = courseView y"
      unfolding courseView_def obj(3) without_setProp_obj
      by (simp add: questionsOf_def map_of_setProp v without_setProp_obj)
    with run show ?thesis by blast
  next
    case (arr xs fps qs1)
    let ?ft1 = "JArr xs (setProp ''questions'' (JArr qs1 []) fps)"
    from normalizeQuestions_result [OF assms(1), of c "JArr xs fps"] arr(2) obtain qs0 where
      all: "list_all2 reshuffled (map (\<lambda>(i, q). normalizeQuestion i q) (indexed qs0)) qs1"
      by auto
    from reshuffle_again(2) [OF assms(2) all, of c' xs fps] obtain qs2 c2 where
      nq: "normalizeQuestions rnd' c' ?ft1 = Inr (qs2, c2)"
      and v: "map questionView qs2 = map questionView qs1" by blast
    let ?z = "JObj (setProp ''finalTest'' (JArr xs (setProp ''questions'' (JArr qs2 []) 
                 (setProp ''questions'' (JArr qs1 []) fps))) (setProp ''finalTest'' ?ft1 ?H))"
    have run: "normalizeCourseJSON rnd' c' y = Inr (?z, c2)"
      unfolding normalizeCourseJSON_def Let_def arr(3) normalizeHead_after_finalTest
      using nq by (simp add: map_of_setProp or_else_truthy)
    have "courseView ?z = courseView y"
      unfolding courseView_def arr(3) without_setProp_obj
      by (simp add: questionsOf_def map_of_setProp v without_setProp_arr)
    with run show ?thesis by blast
  qed
qed

theorem normalize_twice_differs_in_option_order_only_witness:
  "unit_interval zero_rng \<and> unit_interval zero_rng \<and>
   normalizeCourseJSON zero_rng 0
     (valid_course_with [JStr ''a'', JStr ''b'', JStr ''c'', JStr ''d''] 0) =
     Inr (valid_course_with [JStr ''b'', JStr ''c'', JStr ''d'', JStr ''a''] 3, 3) \<and>
   (\<exists>z c2. normalizeCourseJSON zero_rng 3
       (valid_course_with [JStr ''b'', JStr ''c'', JStr ''d'', JStr ''a''] 3) = Inr (z, c2) \<and>
     courseView z = courseView (valid_course_with [JStr ''b'', JStr ''c'', JStr ''d'', JStr ''a''] 3))"
proof -
  have h: "normalizeCourseJSON zero_rng 0
     (valid_course_with [JStr ''a'', JStr ''b'', JStr ''c'', JStr ''d''] 0) =
     Inr (valid_course_with [JStr ''b'', JStr ''c'', JStr ''d'', JStr ''a''] 3, 3)"
    by (simp add: valid_course_with_def zero_rng_def normalize_eval)
  from normalize_twice_differs_in_option_order_only
    [OF unit_interval_zero_rng unit_interval_zero_rng h, of 3]
  show ?thesis using unit_interval_zero_rng h by blast
qed

text \<open>
  Claim C2 as stated fails on a valid course: with every draw 0, the first call turns the
  options a, b, c, d (the first correct) into b, c, d, a with \<^verbatim>\<open>correctAnswer\<close> 3, and the
  call on that result turns them into c, d, a, b with \<^verbatim>\<open>correctAnswer\<close> 2.
\<close>

theorem normalize_twice_counterexample:
  "normalizeCourseJSON zero_rng 0
     (valid_course_with [JStr ''a'', JStr ''b'', JStr ''c'', JStr ''d''] 0) =
     Inr (valid_course_with [JStr ''b'', JStr ''c'', JStr ''d'', JStr ''a''] 3, 3) \<and>
   normalizeCourseJSON zero_rng 3
     (valid_course_with [JStr ''b'', JStr ''c'', JStr ''d'', JStr ''a''] 3) =
     Inr (valid_course_with [JStr ''c'', JStr ''d'', JStr ''a'', JStr ''b''] 2, 6) \<and>
   valid_course_with [JStr ''c'', JStr ''d'', JStr ''a'', JStr ''b''] 2 \<noteq>
   valid_course_with [JStr ''b'', JStr ''c'', JStr ''d'', JStr ''a''] 3"
  by (simp add: valid_course_with_def zero_rng_def normalize_eval)

section \<open>The extractor and the routes\<close>

lemma greedyToBrace_last:
  "greedyToBrace s =
     (if rev (dropWhile (\<lambda>ch. ch \<noteq> CHR ''}'') (rev s)) = [] then None
      else Some (rev (dropWhile (\<lambda>ch. ch \<noteq> CHR ''}'') (rev s))))"
proof (induction s)
  case Nil
  then show ?case by simp
next
  case (Cons ch rest)
  let ?P = "\<lambda>ch. ch \<noteq> CHR ''}''"
  show ?case
  proof (cases "dropWhile ?P (rev rest) = []")
    case True
    then have "\<forall>x\<in>set (rev rest). ?P x" by (simp add: dropWhile_eq_Nil_conv)
    then have "dropWhile ?P (rev rest @ [ch]) = dropWhile ?P [ch]"
      by (simp add: dropWhile_append)
    with True Cons.IH show ?thesis by simp
  next
    case False
    then have "\<exists>x\<in>set (rev rest). \<not> ?P x" by (simp add: dropWhile_eq_Nil_conv)
    then have "dropWhile ?P (rev rest @ [ch]) = dropWhile ?P (rev rest) @ [ch]"
      by (auto simp: dropWhile_append)
    with False Cons.IH show ?thesis by simp
  qed
qed

lemma greedyToBrace_None: "greedyToBrace s = None \<longleftrightarrow> CHR ''}'' \<notin> set s"
  by (induction s) (auto split: option.splits)

lemma regexMatch_no_brace: "CHR ''}'' \<notin> set s \<Longrightarrow> regexMatch s = None"
proof (induction s)
  case Nil
  then show ?case by simp
next
  case (Cons ch rest)
  then have "greedyToBrace rest = None" by (simp add: greedyToBrace_None)
  with Cons show ?case by (simp add: matchAtStart_def)
qed

lemma regexMatch_firstToLastBrace: "regexMatch raw = firstToLastBrace raw"
proof (induction raw)
  case Nil
  then show ?case by (simp add: firstToLastBrace_def)
next
  case (Cons ch rest)
  show ?case
  proof (cases "ch = CHR ''{''")
    case True
    show ?thesis
    proof (cases "greedyToBrace rest")
      case None
      then have "CHR ''}'' \<notin> set rest" using greedyToBrace_None [of rest] by blast
      then have no: "regexMatch rest = None" by (rule regexMatch_no_brace)
      have "rev (dropWhile (\<lambda>ch. ch \<noteq> CHR ''}'') (rev rest)) = []"
        using None greedyToBrace_last [of rest] by (simp split: if_splits)
      with None True no show ?thesis
        by (simp add: matchAtStart_def firstToLastBrace_def)
    next
      case (Some m)
      then have "rev (dropWhile (\<lambda>ch. ch \<noteq> CHR ''}'') (rev rest)) = m" "m \<noteq> []"
        using greedyToBrace_last [of rest] by (auto split: if_splits)
      moreover from Some have "CHR ''}'' \<in> set rest"
        using greedyToBrace_None [of rest] by auto
      ultimately show ?thesis using Some True
        by (simp add: matchAtStart_def firstToLastBrace_def)
    qed
  next
    case False
    with Cons.IH show ?thesis by (simp add: matchAtStart_def firstToLastBrace_def)
  qed
qed

text \<open>
  The extractor in the words of the specification: the strict parse first, then the parse of
  the substring from the first opening brace through the last closing brace. The error of
  the branch without such a substring is the program's own; where the substring does not
  parse, the SyntaxError of the second \<^verbatim>\<open>JSON.parse\<close> is what leaves the function.
\<close>

lemma extractor_strict_then_brace_span:
  "safeParseJson parse raw =
     (case parse raw of
        Some v \<Rightarrow> Inr v
      | None \<Rightarrow>
          (case firstToLastBrace raw of
             None \<Rightarrow> Inl (Error ''Model output was not valid JSON.'')
           | Some m \<Rightarrow> (case parse m of Some v \<Rightarrow> Inr v | None \<Rightarrow> Inl SyntaxError))) \<and>
   parseJSONLoosely parse (JStr raw) =
     (if raw = [] then Inl (Error ''Empty AI response'')
      else case parse raw of
        Some v \<Rightarrow> Inr v
      | None \<Rightarrow>
          (case firstToLastBrace raw of
             None \<Rightarrow> Inl (Error ''AI response did not contain valid JSON.'')
           | Some m \<Rightarrow> (case parse m of Some v \<Rightarrow> Inr v | None \<Rightarrow> Inl SyntaxError))) \<and>
   safeParseJson json_parse ''{\"a\":1}'' = Inr (JObj [(''a'', JNum 1)]) \<and>
   safeParseJson json_parse ''Here is your JSON:\<newline>{\"a\":1}\<newline>Thanks!'' =
     Inr (JObj [(''a'', JNum 1)]) \<and>
   firstToLastBrace ''Here is your JSON:\<newline>{\"a\":1}\<newline>Thanks!'' = Some ''{\"a\":1}'' \<and>
   json_parse ''Here is your JSON:\<newline>{\"a\":1}\<newline>Thanks!'' = None \<and>
   safeParseJson json_parse ''not json at all'' =
     Inl (Error ''Model output was not valid JSON.'')"
proof (intro conjI)
  show "safeParseJson parse raw =
     (case parse raw of
        Some v \<Rightarrow> Inr v
      | None \<Rightarrow>
          (case firstToLastBrace raw of
             None \<Rightarrow> Inl (Error ''Model output was not valid JSON.'')
           | Some m \<Rightarrow> (case parse m of Some v \<Rightarrow> Inr v | None \<Rightarrow> Inl SyntaxError)))"
    unfolding safeParseJson_def regexMatch_firstToLastBrace by (rule refl)
  show "parseJSONLoosely parse (JStr raw) =
     (if raw = [] then Inl (Error ''Empty AI response'')
      else case parse raw of
        Some v \<Rightarrow> Inr v
      | None \<Rightarrow>
          (case firstToLastBrace raw of
             None \<Rightarrow> Inl (Error ''AI response did not contain valid JSON.'')
           | Some m \<Rightarrow> (case parse m of Some v \<Rightarrow> Inr v | None \<Rightarrow> Inl SyntaxError)))"
    unfolding parseJSONLoosely_def regexMatch_firstToLastBrace by simp
  show "safeParseJson json_parse ''{\"a\":1}'' = Inr (JObj [(''a'', JNum 1)])"
    by code_simp
  show "safeParseJson json_parse ''Here is your JSON:\<newline>{\"a\":1}\<newline>Thanks!'' =
     Inr (JObj [(''a'', JNum 1)])"
    by code_simp
  show "firstToLastBrace ''Here is your JSON:\<newline>{\"a\":1}\<newline>Thanks!'' = Some ''{\"a\":1}''"
    by code_simp
  show "json_parse ''Here is your JSON:\<newline>{\"a\":1}\<newline>Thanks!'' = None"
    by code_simp
  show "safeParseJson json_parse ''not json at all'' =
     Inl (Error ''Model output was not valid JSON.'')"
    by code_simp
qed

lemma getProp_body: "getProp (or_else b (JObj [])) k = getProp b k"
  by (cases b) (simp_all add: or_else_def)

lemma openaiResponses_no_key:
  "openaiResponses [] net sent req = (Inl (Error missingKey), sent)"
  by (simp add: openaiResponses_def)

lemma modelText_no_key:
  "apiKey cfg = [] \<Longrightarrow> modelText cfg net sent req = (Inl (Error missingKey), sent)"
  by (simp add: modelText_def openaiResponses_no_key)

lemma modelJson_no_key:
  "apiKey cfg = [] \<Longrightarrow> modelJson cfg parse net sent req = (Inl (Error missingKey), sent)"
  by (simp add: modelJson_def modelText_no_key)

lemma ocrImage_no_key:
  assumes "apiKey cfg = []"
  shows "ocrImage cfg net b =
     (if truthy (getProp b ''imageDataUrl'') then ServerError (Error missingKey)
      else BadRequest ''imageDataUrl is required'', [])"
  by (simp add: ocrImage_def Let_def getProp_body modelText_no_key [OF assms])

lemma generateCourse_no_key:
  assumes "apiKey cfg = []"
  shows "snd (generateCourse cfg parse net b) = [] \<and>
     \<not> succeeded (fst (generateCourse cfg parse net b)) \<and>
     (\<forall>s p. getProp b ''syllabusText'' = JStr s \<and> s \<noteq> [] \<and>
        buildCourseOnlyPrompt (take 24000 s) (getProp b ''settings'') = Inr p \<longrightarrow>
        fst (generateCourse cfg parse net b) = ServerError (Error missingKey))"
  by (cases "getProp b ''syllabusText''")
    (auto simp: generateCourse_def Let_def getProp_body modelJson_no_key [OF assms]
      succeeded_def split: sum.splits)

lemma analyzeTest_no_key:
  assumes "apiKey cfg = []"
  shows "snd (analyzeTest cfg net b) = [] \<and>
     \<not> succeeded (fst (analyzeTest cfg net b)) \<and>
     (\<forall>p. isArray (getProp b ''wrong'') \<and>
        analyzePrompt (getProp b ''courseTitle'') (getProp b ''score'') (getProp b ''wrong'') = Inr p \<longrightarrow>
        fst (analyzeTest cfg net b) = ServerError (Error missingKey))"
  by (auto simp: analyzeTest_def Let_def getProp_body modelText_no_key [OF assms]
      succeeded_def split: sum.splits)

lemma focusedCourse_no_key:
  assumes "apiKey cfg = []"
  shows "snd (focusedCourse cfg net b) = [] \<and>
     \<not> succeeded (fst (focusedCourse cfg net b)) \<and>
     (\<forall>p. truthy (getProp b ''originalCourse'') \<and> isArray (getProp b ''wrongAnswers'') \<and>
        elements (getProp b ''wrongAnswers'') \<noteq> [] \<and>
        buildFocusedPrompt (getProp b ''originalCourse'') (getProp b ''wrongAnswers'')
          (getProp b ''priorAnalysis'') (getProp b ''sourceText'') (getProp b ''settings'') = Inr p \<longrightarrow>
        fst (focusedCourse cfg net b) = ServerError (Error missingKey))"
  by (auto simp: focusedCourse_def Let_def getProp_body modelText_no_key [OF assms]
      succeeded_def split: sum.splits)

lemma nullish_or_coercible:
  "\<not> toStringThrows v \<Longrightarrow> \<not> toStringThrows (nullish_or v (JNum n))"
  by (simp add: nullish_or_def)

lemma openaiResponses_ok:
  assumes "key \<noteq> []" "net (length sent) req = Responded True st (Some d)"
  shows "openaiResponses key net sent req = (Inr d, sent @ [req])"
  using assms by (simp add: openaiResponses_def)

lemma modelJson_ok:
  assumes "apiKey cfg \<noteq> []" "net (length sent) req = Responded True st (Some d)"
    and "extractText d = Inr t"
  shows "modelJson cfg parse net sent req = (safeParseJson parse t, sent @ [req])"
  using assms by (simp add: modelJson_def modelText_def openaiResponses_ok)

lemma parse_empty_course: "safeParseJson json_parse empty_course_text = Inr (JObj [])"
  by code_simp

lemma parse_empty_quiz:
  "safeParseJson json_parse empty_quiz_text =
     Inr (JObj [(''finalTest'', JObj [(''questions'', JArr [] [])])])"
  by code_simp

lemma parse_prose:
  "safeParseJson json_parse prose_text = Inl (Error ''Model output was not valid JSON.'')"
  by code_simp

lemma text_nonempty: "empty_course_text \<noteq> []" "empty_quiz_text \<noteq> []" "prose_text \<noteq> []"
  "\<not> list_all isWhiteSpace empty_course_text" "\<not> list_all isWhiteSpace empty_quiz_text"
  "\<not> list_all isWhiteSpace prose_text"
  by (simp_all add: empty_course_text_def empty_quiz_text_def prose_text_def isWhiteSpace_def)

lemma canned_net_0: "canned_net t1 t2 0 req = Responded True 200 (Some (JObj [(''output_text'', JStr t1)]))"
  by (simp add: canned_net_def)

lemma canned_net_1: "canned_net t1 t2 1 req = Responded True 200 (Some (JObj [(''output_text'', JStr t2)]))"
  by (simp add: canned_net_def)

lemma extractText_output_text:
  "\<not> list_all isWhiteSpace t \<Longrightarrow> extractText (JObj [(''output_text'', JStr t)]) = Inr t"
  by (simp add: extractText_def blank_def)

lemma course_text_visible: "\<not> list_all isWhiteSpace course_text"
  by (simp add: course_text_def isWhiteSpace_def)

lemma quiz_text_visible: "\<not> list_all isWhiteSpace quiz_text"
  by (simp add: quiz_text_def isWhiteSpace_def)

lemma parse_course_text: "safeParseJson json_parse course_text = Inr (JObj course_props)"
  by code_simp

lemma outline_course_props: "outlineForQuiz (JObj course_props) = Inr course_outline"
  by code_simp

lemma parse_quiz_text: "safeParseJson json_parse quiz_text = Inr quiz_obj"
  by code_simp

section \<open>The extractor and the routes: claims\<close>

text \<open>
  Claim C5 says that the extractor raises its malformed-output error when the parse of the
  brace span fails as well. The code raises that error, \<^verbatim>\<open>Model output was not valid JSON.\<close>,
  only where no brace span is found; the second \<^verbatim>\<open>JSON.parse\<close> stands in the \<^verbatim>\<open>catch\<close> block,
  outside the \<^verbatim>\<open>try\<close>, and where the span does not parse its SyntaxError leaves the function
  instead. On the text \<^verbatim>\<open>Sure: {"a":1} and more }\<close> the strict parse fails, the span from the
  first opening brace through the last closing brace is \<^verbatim>\<open>{"a":1} and more }\<close>, that does
  not parse either, and both safeParseJson and parseJSONLoosely end in the SyntaxError, which
  is not the error raised in the branch without a span.
\<close>

theorem unparsable_brace_span_raises_SyntaxError:
  "json_parse stray_brace_text = None \<and>
   regexMatch stray_brace_text = Some ''{\"a\":1} and more }'' \<and>
   json_parse ''{\"a\":1} and more }'' = None \<and>
   safeParseJson json_parse stray_brace_text = Inl SyntaxError \<and>
   parseJSONLoosely json_parse (JStr stray_brace_text) = Inl SyntaxError \<and>
   safeParseJson json_parse ''not json at all'' =
     Inl (Error ''Model output was not valid JSON.'') \<and>
   SyntaxError \<noteq> Error ''Model output was not valid JSON.''"
proof (intro conjI)
  show "json_parse stray_brace_text = None"
    by code_simp
  show "regexMatch stray_brace_text = Some ''{\"a\":1} and more }''"
    by code_simp
  show "json_parse ''{\"a\":1} and more }'' = None"
    by code_simp
  show "safeParseJson json_parse stray_brace_text = Inl SyntaxError"
    by code_simp
  show "parseJSONLoosely json_parse (JStr stray_brace_text) = Inl SyntaxError"
    by code_simp
  show "safeParseJson json_parse ''not json at all'' =
     Inl (Error ''Model output was not valid JSON.'')"
    by code_simp
  show "SyntaxError \<noteq> Error ''Model output was not valid JSON.''"
    by simp
qed

text \<open>
  Claim C6: in the generate-course flow the merge assigns \<^verbatim>\<open>quizObj.finalTest\<close> to
  \<^verbatim>\<open>courseObj.finalTest\<close> and checks nothing about the questions. With a key configured, a
  request with a syllabus text, a model client whose first answer parses to a course object
  (from which the outline can be taken) and whose second answer parses to a quiz object, the
  route answers 200 after two model calls with the course object carrying the quiz's
  \<^verbatim>\<open>finalTest\<close>: its \<^verbatim>\<open>units\<close> are those of pass 1 and its \<^verbatim>\<open>finalTest\<close> is that of pass 2,
  whatever the number of questions.
\<close>

theorem generate_course_merges_quiz_into_course:
  assumes key: "apiKey cfg \<noteq> []"
    and syl: "getProp reqBody ''syllabusText'' = JStr s" "s \<noteq> []"
    and words: "\<not> toStringThrows (getProp (getProp reqBody ''settings'') ''minimumLessonWords'')"
    and count: "\<not> toStringThrows (getProp (getProp reqBody ''settings'') ''quizCountTarget'')"
    and pass1: "\<And>req. net 0 req = Responded True st1 (Some d1)" "extractText d1 = Inr t1"
      "safeParseJson parse t1 = Inr (JObj course)"
    and shape: "outlineForQuiz (JObj course) = Inr outline"
    and pass2: "\<And>req. net 1 req = Responded True st2 (Some d2)" "extractText d2 = Inr t2"
      "safeParseJson parse t2 = Inr quizObj" "\<not> nullish quizObj"
  shows "(\<exists>sent. generateCourse cfg parse net reqBody =
        (OkJsonOf (JObj (setProp ''finalTest'' (getProp quizObj ''finalTest'') course)), sent) \<and>
        length sent = 2) \<and>
     getProp (JObj (setProp ''finalTest'' (getProp quizObj ''finalTest'') course)) ''units'' =
       getProp (JObj course) ''units'' \<and>
     getProp (JObj (setProp ''finalTest'' (getProp quizObj ''finalTest'') course)) ''finalTest'' =
       getProp quizObj ''finalTest''"
proof -
  let ?settings = "getProp reqBody ''settings''"
  let ?usedModel = "or_else (getProp reqBody ''model'') (JStr (defaultModel cfg))"
  let ?p1 = "CoursePrompt (take 24000 s) (nullish_or (getProp ?settings ''minimumLessonWords'') (JNum 300))"
  let ?req1 = "\<lparr>model = ?usedModel, input = ?p1, max_output_tokens = 12000, json_object = True\<rparr>"
  let ?p2 = "QuizPrompt outline (nullish_or (getProp ?settings ''quizCountTarget'') (JNum 20))"
  let ?req2 = "\<lparr>model = ?usedModel, input = ?p2, max_output_tokens = 5000, json_object = True\<rparr>"
  have b1: "buildCourseOnlyPrompt (take 24000 s) ?settings = Inr ?p1"
    using nullish_or_coercible [OF words] by (simp add: buildCourseOnlyPrompt_def Let_def)
  have b2: "buildQuizOnlyPrompt outline ?settings = Inr ?p2"
    using nullish_or_coercible [OF count] by (simp add: buildQuizOnlyPrompt_def Let_def)
  have m1: "modelJson cfg parse net [] ?req1 = (Inr (JObj course), [?req1])"
    using modelJson_ok [OF key, of net "[]" ?req1 st1 d1 t1 parse] pass1 by simp
  have m2: "modelJson cfg parse net [?req1] ?req2 = (Inr quizObj, [?req1, ?req2])"
    using modelJson_ok [OF key, of net "[?req1]" ?req2 st2 d2 t2 parse] pass2 by simp
  have mg: "mergeQuiz (JObj course) quizObj =
      Inr (JObj (setProp ''finalTest'' (getProp quizObj ''finalTest'') course))"
    using pass2(4) by (simp add: mergeQuiz_def assignProp_def)
  have q: "generateQuiz cfg parse net [?req1] ?usedModel ?settings (JObj course) =
      (OkJsonOf (JObj (setProp ''finalTest'' (getProp quizObj ''finalTest'') course)),
       [?req1, ?req2])"
    by (simp add: generateQuiz_def shape b2 m2 mg)
  have "generateCourse cfg parse net reqBody =
      (OkJsonOf (JObj (setProp ''finalTest'' (getProp quizObj ''finalTest'') course)),
       [?req1, ?req2])"
    using syl by (simp add: generateCourse_def Let_def getProp_body b1 m1 q)
  then show ?thesis by (simp add: map_of_setProp)
qed

theorem generate_course_merges_quiz_into_course_witness:
  "apiKey test_cfg \<noteq> [] \<and>
   getProp syllabus_body ''syllabusText'' = JStr ''Week 1: groups. Week 2: rings.'' \<and>
   ''Week 1: groups. Week 2: rings.'' \<noteq> [] \<and>
   \<not> toStringThrows (getProp (getProp syllabus_body ''settings'') ''minimumLessonWords'') \<and>
   \<not> toStringThrows (getProp (getProp syllabus_body ''settings'') ''quizCountTarget'') \<and>
   (\<forall>req. canned_net course_text quiz_text 0 req = Responded True 200 (Some course_reply)) \<and>
   extractText course_reply = Inr course_text \<and>
   safeParseJson json_parse course_text = Inr (JObj course_props) \<and>
   outlineForQuiz (JObj course_props) = Inr course_outline \<and>
   (\<forall>req. canned_net course_text quiz_text 1 req = Responded True 200 (Some quiz_reply)) \<and>
   extractText quiz_reply = Inr quiz_text \<and>
   safeParseJson json_parse quiz_text = Inr quiz_obj \<and>
   \<not> nullish quiz_obj \<and>
   (\<exists>sent. generateCourse test_cfg json_parse (canned_net course_text quiz_text) syllabus_body =
        (OkJsonOf (JObj (setProp ''finalTest'' (getProp quiz_obj ''finalTest'') course_props)),
         sent) \<and>
      length sent = 2) \<and>
   getProp (JObj (setProp ''finalTest'' (getProp quiz_obj ''finalTest'') course_props)) ''units'' =
     getProp (JObj course_props) ''units'' \<and>
   getProp (JObj (setProp ''finalTest'' (getProp quiz_obj ''finalTest'') course_props))
     ''finalTest'' = getProp quiz_obj ''finalTest''"
proof -
  have h1: "apiKey test_cfg \<noteq> []" by (simp add: test_cfg_def)
  have h2: "getProp syllabus_body ''syllabusText'' = JStr ''Week 1: groups. Week 2: rings.''"
    by (simp add: syllabus_body_def)
  have h3: "''Week 1: groups. Week 2: rings.'' \<noteq> []" by simp
  have h4: "\<not> toStringThrows (getProp (getProp syllabus_body ''settings'') ''minimumLessonWords'')"
    by (simp add: syllabus_body_def)
  have h5: "\<not> toStringThrows (getProp (getProp syllabus_body ''settings'') ''quizCountTarget'')"
    by (simp add: syllabus_body_def)
  have h6: "canned_net course_text quiz_text 0 req = Responded True 200 (Some course_reply)" for req
    unfolding course_reply_def by (rule canned_net_0)
  have h7: "extractText course_reply = Inr course_text"
    unfolding course_reply_def by (rule extractText_output_text [OF course_text_visible])
  have h8: "canned_net course_text quiz_text 1 req = Responded True 200 (Some quiz_reply)" for req
    unfolding quiz_reply_def by (rule canned_net_1)
  have h9: "extractText quiz_reply = Inr quiz_text"
    unfolding quiz_reply_def by (rule extractText_output_text [OF quiz_text_visible])
  have h10: "\<not> nullish quiz_obj" by (simp add: quiz_obj_def)
  note r = generate_course_merges_quiz_into_course
    [where net = "canned_net course_text quiz_text", OF h1 h2 h3 h4 h5 h6 h7 parse_course_text outline_course_props h8 h9 parse_quiz_text h10]
  show ?thesis
    using h1 h2 h4 h5 h6 h7 parse_course_text outline_course_props h8 h9 parse_quiz_text h10 r
    by simp
qed

text \<open>
  Claim C7, amended. The generate-course flow fails with status 500, carrying the error of
  the extractor, whenever the extractor finds no JSON value in the text of pass 1; only the
  first model call has been made then. An object without \<^verbatim>\<open>units\<close> is not rejected: the
  outline takes \<^verbatim>\<open>courseObj.units || []\<close> and the flow goes on to pass 2.
\<close>

theorem generate_course_fails_when_pass1_has_no_json:
  assumes key: "apiKey cfg \<noteq> []"
    and syl: "getProp reqBody ''syllabusText'' = JStr s" "s \<noteq> []"
    and words: "\<not> toStringThrows (getProp (getProp reqBody ''settings'') ''minimumLessonWords'')"
    and pass1: "\<And>req. net 0 req = Responded True st1 (Some d1)" "extractText d1 = Inr t1"
    and fails: "safeParseJson parse t1 = Inl e"
  shows "\<exists>req1. generateCourse cfg parse net reqBody = (ServerError e, [req1])"
proof -
  let ?settings = "getProp reqBody ''settings''"
  let ?usedModel = "or_else (getProp reqBody ''model'') (JStr (defaultModel cfg))"
  let ?p1 = "CoursePrompt (take 24000 s) (nullish_or (getProp ?settings ''minimumLessonWords'') (JNum 300))"
  let ?req1 = "\<lparr>model = ?usedModel, input = ?p1, max_output_tokens = 12000, json_object = True\<rparr>"
  have b1: "buildCourseOnlyPrompt (take 24000 s) ?settings = Inr ?p1"
    using nullish_or_coercible [OF words] by (simp add: buildCourseOnlyPrompt_def Let_def)
  have m1: "modelJson cfg parse net [] ?req1 = (Inl e, [?req1])"
    using modelJson_ok [OF key, of net "[]" ?req1 st1 d1 t1 parse] pass1 fails by simp
  have "generateCourse cfg parse net reqBody = (ServerError e, [?req1])"
    using syl by (simp add: generateCourse_def Let_def getProp_body b1 m1)
  then show ?thesis by blast
qed

theorem generate_course_fails_when_pass1_has_no_json_witness:
  "apiKey test_cfg \<noteq> [] \<and>
   getProp syllabus_body ''syllabusText'' = JStr ''Week 1: groups. Week 2: rings.'' \<and>
   ''Week 1: groups. Week 2: rings.'' \<noteq> [] \<and>
   \<not> toStringThrows (getProp (getProp syllabus_body ''settings'') ''minimumLessonWords'') \<and>
   (\<forall>req. canned_net prose_text empty_quiz_text 0 req = Responded True 200 (Some prose_reply)) \<and>
   extractText prose_reply = Inr prose_text \<and>
   safeParseJson json_parse prose_text = Inl (Error ''Model output was not valid JSON.'') \<and>
   (\<exists>req1. generateCourse test_cfg json_parse (canned_net prose_text empty_quiz_text)
        syllabus_body = (ServerError (Error ''Model output was not valid JSON.''), [req1]))"
proof -
  have h1: "apiKey test_cfg \<noteq> []" by (simp add: test_cfg_def)
  have h2: "getProp syllabus_body ''syllabusText'' = JStr ''Week 1: groups. Week 2: rings.''"
    by (simp add: syllabus_body_def)
  have h3: "''Week 1: groups. Week 2: rings.'' \<noteq> []" by simp
  have h4: "\<not> toStringThrows (getProp (getProp syllabus_body ''settings'') ''minimumLessonWords'')"
    by (simp add: syllabus_body_def)
  have h6: "canned_net prose_text empty_quiz_text 0 req = Responded True 200 (Some prose_reply)"
    for req unfolding prose_reply_def by (rule canned_net_0)
  have h7: "extractText prose_reply = Inr prose_text"
    unfolding prose_reply_def by (rule extractText_output_text [OF text_nonempty(6)])
  note r = generate_course_fails_when_pass1_has_no_json
    [where net = "canned_net prose_text empty_quiz_text", OF h1 h2 h3 h4 h6 h7 parse_prose]
  show ?thesis using h1 h2 h4 h6 h7 parse_prose r by simp
qed

text \<open>
  Claim C7 as stated fails where pass 1 returns an object that bears no units: with the
  first model output \<^verbatim>\<open>{}\<close> and a quiz as the second, the route answers 200 with the merged
  object.
\<close>

theorem course_without_units_counterexample:
  "fst (generateCourse test_cfg json_parse (canned_net empty_course_text empty_quiz_text)
          syllabus_body) =
     OkJsonOf (JObj [(''finalTest'', JObj [(''questions'', JArr [] [])])])"
  by (simp add: generateCourse_def generateQuiz_def modelJson_def modelText_def
      openaiResponses_def extractText_def blank_def buildCourseOnlyPrompt_def
      buildQuizOnlyPrompt_def outlineForQuiz_def mergeQuiz_def assignProp_def nullish_or_def
      or_else_def canned_net_def test_cfg_def syllabus_body_def Let_def
      parse_empty_course parse_empty_quiz text_nonempty)

text \<open>
  Claim C8: without an API key the Model Client fails with its configuration error before
  any call of the network: openaiResponses returns the error and leaves the list of sent
  requests as it was. Hence none of the four routes (OCR, generate-course, analyze-test,
  focused-course) sends a request or answers 200, and each of them answers 500 with that
  error as soon as its request passes the validation and its prompt is built.
\<close>

theorem missing_key_fails_before_any_call:
  assumes "apiKey cfg = []"
  shows "openaiResponses (apiKey cfg) net sent req = (Inl (Error missingKey), sent) \<and>
     snd (ocrImage cfg net b1) = [] \<and> \<not> succeeded (fst (ocrImage cfg net b1)) \<and>
     (truthy (getProp b1 ''imageDataUrl'') \<longrightarrow>
        fst (ocrImage cfg net b1) = ServerError (Error missingKey)) \<and>
     snd (generateCourse cfg parse net b2) = [] \<and>
     \<not> succeeded (fst (generateCourse cfg parse net b2)) \<and>
     (\<forall>s p. getProp b2 ''syllabusText'' = JStr s \<and> s \<noteq> [] \<and>
        buildCourseOnlyPrompt (take 24000 s) (getProp b2 ''settings'') = Inr p \<longrightarrow>
        fst (generateCourse cfg parse net b2) = ServerError (Error missingKey)) \<and>
     snd (analyzeTest cfg net b3) = [] \<and> \<not> succeeded (fst (analyzeTest cfg net b3)) \<and>
     (\<forall>p. isArray (getProp b3 ''wrong'') \<and>
        analyzePrompt (getProp b3 ''courseTitle'') (getProp b3 ''score'') (getProp b3 ''wrong'') = Inr p \<longrightarrow>
        fst (analyzeTest cfg net b3) = ServerError (Error missingKey)) \<and>
     snd (focusedCourse cfg net b4) = [] \<and> \<not> succeeded (fst (focusedCourse cfg net b4)) \<and>
     (\<forall>p. truthy (getProp b4 ''originalCourse'') \<and> isArray (getProp b4 ''wrongAnswers'') \<and>
        elements (getProp b4 ''wrongAnswers'') \<noteq> [] \<and>
        buildFocusedPrompt (getProp b4 ''originalCourse'') (getProp b4 ''wrongAnswers'')
          (getProp b4 ''priorAnalysis'') (getProp b4 ''sourceText'') (getProp b4 ''settings'') = Inr p \<longrightarrow>
        fst (focusedCourse cfg net b4) = ServerError (Error missingKey))"
proof -
  have 1: "openaiResponses (apiKey cfg) net sent req = (Inl (Error missingKey), sent)"
    by (simp add: assms openaiResponses_no_key)
  have 2: "snd (ocrImage cfg net b1) = [] \<and> \<not> succeeded (fst (ocrImage cfg net b1)) \<and>
     (truthy (getProp b1 ''imageDataUrl'') \<longrightarrow>
        fst (ocrImage cfg net b1) = ServerError (Error missingKey))"
    by (simp add: ocrImage_no_key [OF assms] succeeded_def)
  from 1 2 generateCourse_no_key [OF assms, of parse net b2] analyzeTest_no_key [OF assms, of net b3]
    focusedCourse_no_key [OF assms, of net b4]
  show ?thesis by (intro conjI) blast+
qed

theorem missing_key_fails_before_any_call_witness:
  "apiKey no_key_cfg = [] \<and>
   openaiResponses (apiKey no_key_cfg) (canned_net course_text quiz_text) []
     \<lparr>model = JStr ''gpt-4.1'', input = CoursePrompt ''Week 1'' (JNum 300),
       max_output_tokens = 12000, json_object = True\<rparr> = (Inl (Error missingKey), []) \<and>
   ocrImage no_key_cfg (canned_net course_text quiz_text) ocr_body =
     (ServerError (Error missingKey), []) \<and>
   generateCourse no_key_cfg json_parse (canned_net course_text quiz_text) syllabus_body =
     (ServerError (Error missingKey), []) \<and>
   analyzeTest no_key_cfg (canned_net course_text quiz_text) analyze_body =
     (ServerError (Error missingKey), []) \<and>
   focusedCourse no_key_cfg (canned_net course_text quiz_text) (focused_body [JNum 1]) =
     (ServerError (Error missingKey), [])"
proof -
  let ?net = "canned_net course_text quiz_text"
  have h: "apiKey no_key_cfg = []" by (simp add: no_key_cfg_def)
  note r = missing_key_fails_before_any_call [OF h, of ?net "[]"
      "\<lparr>model = JStr ''gpt-4.1'', input = CoursePrompt ''Week 1'' (JNum 300),
        max_output_tokens = 12000, json_object = True\<rparr>"
      ocr_body json_parse syllabus_body analyze_body "focused_body [JNum 1]"]
  have o: "truthy (getProp ocr_body ''imageDataUrl'')" by (simp add: ocr_body_def)
  have g: "getProp syllabus_body ''syllabusText'' = JStr ''Week 1: groups. Week 2: rings.'' \<and>
      ''Week 1: groups. Week 2: rings.'' \<noteq> [] \<and>
      buildCourseOnlyPrompt (take 24000 ''Week 1: groups. Week 2: rings.'')
        (getProp syllabus_body ''settings'') =
        Inr (CoursePrompt ''Week 1: groups. Week 2: rings.'' (JNum 300))"
    by (simp add: syllabus_body_def buildCourseOnlyPrompt_def nullish_or_def Let_def)
  have a: "isArray (getProp analyze_body ''wrong'') \<and>
      analyzePrompt (getProp analyze_body ''courseTitle'') (getProp analyze_body ''score'')
        (getProp analyze_body ''wrong'') =
        Inr (AnalyzePrompt (JStr ''Algebra'') (JStr ''?'') (JStr ''?'') (JStr ''?'') (JArr [] []))"
    by (simp add: analyze_body_def analyzePrompt_def nullish_or_def or_else_def Let_def)
  have f: "truthy (getProp (focused_body [JNum 1]) ''originalCourse'') \<and>
      isArray (getProp (focused_body [JNum 1]) ''wrongAnswers'') \<and>
      elements (getProp (focused_body [JNum 1]) ''wrongAnswers'') \<noteq> [] \<and>
      buildFocusedPrompt (getProp (focused_body [JNum 1]) ''originalCourse'')
        (getProp (focused_body [JNum 1]) ''wrongAnswers'')
        (getProp (focused_body [JNum 1]) ''priorAnalysis'')
        (getProp (focused_body [JNum 1]) ''sourceText'')
        (getProp (focused_body [JNum 1]) ''settings'') =
        Inr (FocusedPrompt (JObj [(''courseTitle'', JStr ''Algebra'')]) (JArr [JNum 1] [])
               (JStr ''(none)'') (JStr []) (JNum 300) (JNum 18))"
    by (simp add: focused_body_def buildFocusedPrompt_def sourceExcerpt_def nullish_or_def
        or_else_def Let_def)
  from r o have 1: "ocrImage no_key_cfg ?net ocr_body = (ServerError (Error missingKey), [])"
    by (metis prod.collapse)
  from r g have 2: "generateCourse no_key_cfg json_parse ?net syllabus_body =
      (ServerError (Error missingKey), [])"
    by (metis prod.collapse)
  from r a have 3: "analyzeTest no_key_cfg ?net analyze_body = (ServerError (Error missingKey), [])"
    by (metis prod.collapse)
  from r f have 4: "focusedCourse no_key_cfg ?net (focused_body [JNum 1]) =
      (ServerError (Error missingKey), [])"
    by (metis prod.collapse)
  from r have 0: "openaiResponses (apiKey no_key_cfg) ?net []
     \<lparr>model = JStr ''gpt-4.1'', input = CoursePrompt ''Week 1'' (JNum 300),
       max_output_tokens = 12000, json_object = True\<rparr> = (Inl (Error missingKey), [])"
    by blast
  from h 0 1 2 3 4 show ?thesis by blast
qed

text \<open>
  Claim C9: the focused-course flow answers 400 and calls no model whenever
  \<^verbatim>\<open>wrongAnswers\<close> is absent, not an array or the empty array; with \<^verbatim>\<open>originalCourse\<close>
  present the message is that of the \<^verbatim>\<open>wrongAnswers\<close> check. A model call is made only
  when \<^verbatim>\<open>wrongAnswers\<close> is a non-empty array.
\<close>

theorem focused_course_requires_wrong_answers:
  "(\<not> (isArray (getProp reqBody ''wrongAnswers'') \<and> elements (getProp reqBody ''wrongAnswers'') \<noteq> []) \<longrightarrow>
      (\<exists>msg. focusedCourse cfg net reqBody = (BadRequest msg, []))) \<and>
   (truthy (getProp reqBody ''originalCourse'') \<and>
    \<not> (isArray (getProp reqBody ''wrongAnswers'') \<and> elements (getProp reqBody ''wrongAnswers'') \<noteq> []) \<longrightarrow>
      focusedCourse cfg net reqBody = (BadRequest ''wrongAnswers must be a non-empty array'', [])) \<and>
   (snd (focusedCourse cfg net reqBody) \<noteq> [] \<longrightarrow>
      isArray (getProp reqBody ''wrongAnswers'') \<and> elements (getProp reqBody ''wrongAnswers'') \<noteq> [])"
  by (auto simp: focusedCourse_def Let_def getProp_body modelText_def openaiResponses_def
      split: sum.splits prod.splits fetched.splits if_splits)

theorem focused_course_requires_wrong_answers_witness:
  "truthy (getProp (focused_body []) ''originalCourse'') \<and>
   \<not> (isArray (getProp (focused_body []) ''wrongAnswers'') \<and>
      elements (getProp (focused_body []) ''wrongAnswers'') \<noteq> []) \<and>
   focusedCourse test_cfg (canned_net course_text quiz_text) (focused_body []) =
     (BadRequest ''wrongAnswers must be a non-empty array'', []) \<and>
   snd (focusedCourse test_cfg (canned_net course_text quiz_text) (focused_body [JNum 1])) \<noteq> [] \<and>
   isArray (getProp (focused_body [JNum 1]) ''wrongAnswers'') \<and>
   elements (getProp (focused_body [JNum 1]) ''wrongAnswers'') \<noteq> []"
proof -
  let ?net = "canned_net course_text quiz_text"
  have a: "truthy (getProp (focused_body []) ''originalCourse'')"
    by (simp add: focused_body_def)
  have b: "\<not> (isArray (getProp (focused_body []) ''wrongAnswers'') \<and>
      elements (getProp (focused_body []) ''wrongAnswers'') \<noteq> [])"
    by (simp add: focused_body_def)
  have c: "snd (focusedCourse test_cfg ?net (focused_body [JNum 1])) \<noteq> []"
    by (simp add: focusedCourse_def focused_body_def buildFocusedPrompt_def sourceExcerpt_def
        nullish_or_def or_else_def modelText_def openaiResponses_def canned_net_def test_cfg_def
        extractText_def blank_def course_text_visible Let_def)
  from focused_course_requires_wrong_answers [of "focused_body []" test_cfg ?net] a b
  have 1: "focusedCourse test_cfg ?net (focused_body []) =
      (BadRequest ''wrongAnswers must be a non-empty array'', [])" by blast
  from focused_course_requires_wrong_answers [of "focused_body [JNum 1]" test_cfg ?net] c
  have 2: "isArray (getProp (focused_body [JNum 1]) ''wrongAnswers'') \<and>
      elements (getProp (focused_body [JNum 1]) ''wrongAnswers'') \<noteq> []" by blast
  from a b c 1 2 show ?thesis by blast
qed


end
